theory Spec2Isabelle
  imports Main "HOL-Library.Sublist" "HOL-Library.AList"
begin

section \<open>Transport: the class MessageIO (src/lsp/MessageIO.ts)\<close>

text \<open>
  A \<open>MessageIO\<close> object creates one \<open>net.Socket\<close> per call of \<open>connect\<close> and keeps
  a reference to at most one of them in its field \<open>socket\<close>. The model keeps every socket
  object ever created by the instance in the list \<open>sockets\<close> (a socket's identity is its
  index), because the handlers that \<open>connect\<close> registers close over the local variable
  \<open>socket\<close>, not over the field.

  For one socket object the model records whether the handlers registered by \<open>connect\<close>
  are still attached (\<open>removeAllListeners\<close> detaches them), whether \<open>destroy\<close> has
  been called, whether its \<open>"connect"\<close> event has been emitted, whether the
  \<open>connectionTimeout\<close> timer of its \<open>connect\<close> call is still armed, and the frames
  handed to \<open>socket.write\<close>, in order.
\<close>

type_synonym frame = string

record sock =
  peer :: "string \<times> int"
  listeners :: bool
  destroyed :: bool
  established :: bool
  timer :: bool
  wire :: "frame list"

datatype emitted = Connected | Disconnected | Data string

text \<open>The three filter fields hold either the default \<open>(msg) => msg\<close> or the method of
  the owning client bound by its constructor.\<close>

datatype filter_slot = Identity | Client_filter

record MessageIO =
  sockets :: "sock list"
  socket :: "nat option"
  messageCache :: "frame list"
  draining :: bool
  requestFilter :: filter_slot
  responseFilter :: filter_slot
  notificationFilter :: filter_slot

definition MAX_MESSAGE_CACHE :: nat where
  "MAX_MESSAGE_CACHE = 100"

definition new_MessageIO :: MessageIO where
  "new_MessageIO = \<lparr> sockets = [], socket = None, messageCache = [], draining = False,
     requestFilter = Identity, responseFilter = Identity, notificationFilter = Identity \<rparr>"

definition new_Socket :: "string \<Rightarrow> int \<Rightarrow> sock" where
  "new_Socket host port = \<lparr> peer = (host, port), listeners = True, destroyed = False,
     established = False, timer = True, wire = [] \<rparr>"

definition removeAllListeners :: "sock \<Rightarrow> sock" where
  "removeAllListeners s = s\<lparr>listeners := False\<rparr>"

definition destroy :: "sock \<Rightarrow> sock" where
  "destroy s = s\<lparr>destroyed := True\<rparr>"

text \<open>\<open>socket.write(msg)\<close>: a destroyed socket puts nothing on the wire.\<close>

definition sock_write :: "frame \<Rightarrow> sock \<Rightarrow> sock" where
  "sock_write msg s = (if destroyed s then s else s\<lparr>wire := wire s @ [msg]\<rparr>)"

text \<open>The loop \<open>while (messageCache.length > 0) { msg = shift(); socket.write(msg) }\<close>
  of the \<open>"connect"\<close> handler.\<close>

fun flush :: "frame list \<Rightarrow> sock \<Rightarrow> sock" where
  "flush [] s = s"
| "flush (msg # cache) s = flush cache (sock_write msg s)"

definition on_sock :: "nat \<Rightarrow> (sock \<Rightarrow> sock) \<Rightarrow> MessageIO \<Rightarrow> MessageIO" where
  "on_sock i f io = io\<lparr>sockets := (sockets io)[i := f (sockets io ! i)]\<rparr>"

text \<open>\<open>connect(host, port)\<close>, the synchronous part up to the registration of the
  handlers: tear down the socket the field refers to, clear the cache, create the new socket
  with its timer and its handlers.\<close>

definition connect :: "string \<Rightarrow> int \<Rightarrow> MessageIO \<Rightarrow> MessageIO" where
  "connect host port io =
     (let io1 = (case socket io of
                   None \<Rightarrow> io
                 | Some i \<Rightarrow> (on_sock i (destroy \<circ> removeAllListeners) io)\<lparr>socket := None\<rparr>);
          io2 = (if length (messageCache io1) > 0 then io1\<lparr>messageCache := []\<rparr> else io1)
      in io2\<lparr>sockets := sockets io2 @ [new_Socket host port]\<rparr>)"

text \<open>The handlers, each for the socket \<open>i\<close> it closes over. They return the events the
  \<open>MessageIO\<close> emits.\<close>

definition on_connect :: "nat \<Rightarrow> MessageIO \<Rightarrow> MessageIO \<times> emitted list" where
  "on_connect i io =
     ((on_sock i (\<lambda>s. flush (messageCache io) (s\<lparr>timer := False, established := True\<rparr>)) io)
        \<lparr>socket := Some i, messageCache := []\<rparr>,
      [Connected])"

definition on_drain :: "nat \<Rightarrow> MessageIO \<Rightarrow> MessageIO \<times> emitted list" where
  "on_drain i io = (io\<lparr>draining := False\<rparr>, [])"

definition on_error :: "nat \<Rightarrow> MessageIO \<Rightarrow> MessageIO \<times> emitted list" where
  "on_error i io =
     (let io1 = on_sock i (\<lambda>s. destroy (removeAllListeners (s\<lparr>timer := False\<rparr>))) io
      in (if socket io1 = Some i then io1\<lparr>socket := None\<rparr> else io1, [Disconnected]))"

definition on_close :: "nat \<Rightarrow> MessageIO \<Rightarrow> MessageIO \<times> emitted list" where
  "on_close i io =
     (let io1 = on_sock i (\<lambda>s. destroy (removeAllListeners (s\<lparr>timer := False\<rparr>))) io
      in (if socket io1 = Some i then io1\<lparr>socket := None\<rparr> else io1, [Disconnected]))"

definition on_data :: "nat \<Rightarrow> string \<Rightarrow> MessageIO \<Rightarrow> MessageIO \<times> emitted list" where
  "on_data i chunk io = (io, [Data chunk])"

text \<open>The callback of \<open>connectionTimeout\<close>: it destroys the local socket and rejects,
  and emits nothing.\<close>

definition on_connection_timeout :: "nat \<Rightarrow> MessageIO \<Rightarrow> MessageIO \<times> emitted list" where
  "on_connection_timeout i io =
     (on_sock i (\<lambda>s. destroy (removeAllListeners (s\<lparr>timer := False\<rparr>))) io, [])"

text \<open>\<open>MessageIO.write(message)\<close> (\<open>write\<close> is taken in Isabelle);
  \<open>canContinue\<close> is what \<open>socket.write\<close> returns when it is
  called.\<close>

definition write_io :: "frame \<Rightarrow> bool \<Rightarrow> MessageIO \<Rightarrow> MessageIO" where
  "write_io message canContinue io =
     (case socket io of
        Some i \<Rightarrow>
          (if draining io then
             (if length (messageCache io) < MAX_MESSAGE_CACHE
              then io\<lparr>messageCache := messageCache io @ [message]\<rparr>
              else io)
           else
             (let io1 = on_sock i (sock_write message) io
              in if \<not> canContinue then io1\<lparr>draining := True\<rparr> else io1))
      | None \<Rightarrow>
          (if length (messageCache io) < MAX_MESSAGE_CACHE
           then io\<lparr>messageCache := messageCache io @ [message]\<rparr>
           else io))"

text \<open>
  What can happen to one \<open>MessageIO\<close>: a call of \<open>connect\<close> or \<open>write\<close>, an event
  of one of its sockets, or the firing of a connection timer. A socket event runs a handler
  only while the handlers are attached; Node emits \<open>"connect"\<close> at most once for a socket
  and never after \<open>destroy\<close>; a timer fires only while armed. Anything else leaves the
  object as it is.
\<close>

datatype io_event =
    Connect string int
  | Write frame bool
  | SockConnect nat
  | SockDrain nat
  | SockError nat
  | SockClose nat
  | SockTimeout nat
  | SockData nat string
  | ConnTimeout nat

definition attached :: "nat \<Rightarrow> MessageIO \<Rightarrow> bool" where
  "attached i io = (i < length (sockets io) \<and> listeners (sockets io ! i))"

definition can_connect :: "nat \<Rightarrow> MessageIO \<Rightarrow> bool" where
  "can_connect i io = (attached i io \<and> \<not> destroyed (sockets io ! i)
     \<and> \<not> established (sockets io ! i))"

definition armed :: "nat \<Rightarrow> MessageIO \<Rightarrow> bool" where
  "armed i io = (i < length (sockets io) \<and> timer (sockets io ! i))"

fun io_step :: "io_event \<Rightarrow> MessageIO \<Rightarrow> MessageIO \<times> emitted list" where
  "io_step (Connect host port) io = (connect host port io, [])"
| "io_step (Write message canContinue) io = (write_io message canContinue io, [])"
| "io_step (SockConnect i) io = (if can_connect i io then on_connect i io else (io, []))"
| "io_step (SockDrain i) io = (if attached i io then on_drain i io else (io, []))"
| "io_step (SockError i) io = (if attached i io then on_error i io else (io, []))"
| "io_step (SockClose i) io = (if attached i io then on_close i io else (io, []))"
| "io_step (SockTimeout i) io = (io, [])"
| "io_step (SockData i chunk) io = (if attached i io then on_data i chunk io else (io, []))"
| "io_step (ConnTimeout i) io = (if armed i io then on_connection_timeout i io else (io, []))"

fun io_run :: "io_event list \<Rightarrow> MessageIO \<Rightarrow> MessageIO" where
  "io_run [] io = io"
| "io_run (e # es) io = io_run es (fst (io_step e io))"

text \<open>The sockets that are open (connected and not destroyed), and the sockets whose
  handlers can still fire.\<close>

definition open_sockets :: "MessageIO \<Rightarrow> nat list" where
  "open_sockets io =
     filter (\<lambda>i. established (sockets io ! i) \<and> \<not> destroyed (sockets io ! i))
       [0 ..< length (sockets io)]"

definition live_handlers :: "MessageIO \<Rightarrow> nat list" where
  "live_handlers io = filter (\<lambda>i. listeners (sockets io ! i)) [0 ..< length (sockets io)]"

fun writes_of :: "io_event list \<Rightarrow> frame list" where
  "writes_of [] = []"
| "writes_of (Write message canContinue # es) = message # writes_of es"
| "writes_of (e # es) = writes_of es"

section \<open>Protocol client: the class GDScriptLanguageClient\<close>

datatype ClientStatus = PENDING | DISCONNECTED | CONNECTED | REJECTED

datatype TargetLSP = HEADLESS | EDITOR

text \<open>A JSON-RPC identifier is a number, a string or \<open>null\<close>. A message has an \<open>id\<close>
  property or not (a notification has none, and \<open>message.id\<close> is then \<open>undefined\<close>) and
  a \<open>method\<close> property or not (a response has none). Of its payload the model keeps
  \<open>params.path\<close>, which \<open>check_workspace\<close> reads, and the shape of \<open>result\<close> as far
  as \<open>response_filter\<close> reads it: absent or \<open>null\<close> (as in an error response); an
  object with a \<open>contents\<close> property, of which the filter reads \<open>value\<close> (\<open>None\<close>
  when that is absent or empty); an array of links, each with its \<open>target\<close> (absent or a
  string) and its \<open>tooltip\<close>; or an object with neither.\<close>

datatype json_id = IdNum int | IdStr string | IdNull

record link =
  link_target :: "string option"
  tooltip :: "string option"

datatype result_shape = Absent | Contents "string option" | Links "link list" | Other

record message =
  msg_id :: "json_id option"
  "method" :: "string option"
  params_path :: "string option"
  result :: result_shape

text \<open>An entry of \<open>sentMessages\<close> is \<open>{...message, timestamp: Date.now()}\<close>. The table
  is a JavaScript \<open>Map\<close>: \<open>set\<close> replaces the value of a key that is present in place
  and appends a new key, \<open>delete\<close> removes the key, which is what \<open>AList.update\<close> and
  \<open>AList.delete\<close> do on an association list.\<close>

record sent_entry = message +
  timestamp :: int

datatype error = TypeError | Error string

record client =
  io :: MessageIO
  target :: TargetLSP
  port :: int
  lastPortTried :: int
  sentMessages :: "(json_id option \<times> sent_entry) list"
  rejected :: bool
  client_status :: ClientStatus
  io_subscribed :: bool
  status_listeners :: bool

text \<open>The configuration values the code reads with \<open>get_configuration\<close>.\<close>

record config =
  serverHost :: string
  serverPort :: int
  headless :: bool
  autoReconnect_enabled :: bool
  autoReconnect_attempts :: int

text \<open>What the code calls outside itself: \<open>JSON.stringify\<close>, \<open>path.normalize\<close>, the
  chain of replacements that \<open>response_filter\<close> applies to the markdown of a hover
  (\<open>fix_markdown\<close>), and the resolution of a \<open>uid://\<close> target to a file URI and a
  resource path (\<open>resolve_uid\<close>, \<open>None\<close> when the identifier resolves to nothing or the
  resolution fails, which the filter catches).\<close>

record externals =
  stringify :: "message \<Rightarrow> string"
  normalize :: "string \<Rightarrow> string"
  fix_markdown :: "string \<Rightarrow> string"
  resolve_uid :: "string \<Rightarrow> (string \<times> string option) option"

text \<open>The constructor: status \<open>PENDING\<close> (nobody listens to \<open>events\<close> yet), the two
  handlers registered on the \<open>MessageIO\<close>, the three filters bound.\<close>

definition new_GDScriptLanguageClient :: client where
  "new_GDScriptLanguageClient =
     \<lparr> io = new_MessageIO\<lparr>requestFilter := Client_filter, responseFilter := Client_filter,
            notificationFilter := Client_filter\<rparr>,
       target = EDITOR, port = - 1, lastPortTried = - 1, sentMessages = [], rejected = False,
       client_status = ClientStatus.PENDING, io_subscribed = True, status_listeners = False \<rparr>"

text \<open>The setter of \<open>status\<close> stores the value and emits it on \<open>events\<close>; the result
  lists what the listeners of \<open>events\<close> receive.\<close>

definition set_status :: "ClientStatus \<Rightarrow> client \<Rightarrow> client \<times> ClientStatus list" where
  "set_status v c = (c\<lparr>client_status := v\<rparr>, if status_listeners c then [v] else [])"

definition disposeClient :: "client \<Rightarrow> client" where
  "disposeClient c =
     (let c1 = c\<lparr>sentMessages := [], io_subscribed := False\<rparr>;
          io1 = (io c1)\<lparr>requestFilter := Identity, responseFilter := Identity,
                   notificationFilter := Identity\<rparr>;
          io2 = (case socket io1 of
                   None \<Rightarrow> io1
                 | Some i \<Rightarrow> (on_sock i (destroy \<circ> removeAllListeners) io1)\<lparr>socket := None\<rparr>);
          io3 = io2\<lparr>messageCache := []\<rparr>
      in c1\<lparr>io := io3, status_listeners := False\<rparr>)"

text \<open>\<open>connect(target, tryAlternatePort)\<close> up to the call of \<open>io.connect\<close>; the
  \<open>catch\<close> around that call only logs. The result gives the port handed to
  \<open>io.connect\<close> and the statuses emitted.\<close>

definition client_connect ::
    "config \<Rightarrow> TargetLSP \<Rightarrow> bool \<Rightarrow> client \<Rightarrow> client \<times> int \<times> ClientStatus list" where
  "client_connect cfg tgt tryAlternatePort c =
     (let c1 = c\<lparr>rejected := False, target := tgt\<rparr>;
          (c2, emitted_status) = set_status ClientStatus.PENDING c1;
          port0 = (if port c2 \<noteq> - 1 then port c2 else serverPort cfg);
          port1 =
            (if target c2 = EDITOR then
               (if port0 = 6005 \<or> port0 = 6008 then
                  (if tryAlternatePort \<and> lastPortTried c2 = 6005 then 6008
                   else if tryAlternatePort \<and> lastPortTried c2 = 6008 then 6005
                   else 6005)
                else port0)
             else port0);
          c3 = c2\<lparr>lastPortTried := port1\<rparr>
      in (c3\<lparr>io := connect (serverHost cfg) port1 (io c3)\<rparr>, port1, emitted_status))"

text \<open>\<open>send_request\<close>. The underlying \<open>sendRequest\<close> either throws, or returns a
  promise, which is later fulfilled or rejected. The body is
  \<open>try { return this.sendRequest(method, params); } catch { log.warn(...) }\<close> in an
  \<open>async\<close> function, with no \<open>await\<close>: the \<open>catch\<close> sees what \<open>sendRequest\<close>
  throws while it is called, and a returned promise settles the promise of \<open>send_request\<close>
  with its own outcome. A caught exception falls through to the end of the function, which
  returns \<open>undefined\<close> (\<open>None\<close>).\<close>

datatype 'a promise = Fulfilled 'a | Rejected error

datatype log_level = Debug | Info | Warn

type_synonym log_entry = "log_level \<times> string"

definition send_request ::
    "(string \<Rightarrow> 'p \<Rightarrow> error + 'r promise) \<Rightarrow> string \<Rightarrow> 'p \<Rightarrow> 'r option promise \<times> log_entry list"
  where
  "send_request sendRequest meth params =
     (case sendRequest meth params of
        Inl thrown \<Rightarrow> (Fulfilled None, [(Warn, ''sending request failed!'')])
      | Inr returned \<Rightarrow>
          (case returned of
             Fulfilled r \<Rightarrow> (Fulfilled (Some r), [])
           | Rejected e \<Rightarrow> (Rejected e, [])))"

text \<open>The filters. \<open>None\<close> is the value \<open>false\<close>, which discards the message;
  \<open>now\<close> is \<open>Date.now()\<close>.\<close>

definition request_filter :: "int \<Rightarrow> message \<Rightarrow> client \<Rightarrow> client \<times> message option" where
  "request_filter now message c =
     (if rejected c then
        (if method message = Some ''shutdown'' then (c, Some message) else (c, None))
      else
        (let c1 = c\<lparr>sentMessages :=
                     AList.update (msg_id message) (message.extend message \<lparr>timestamp = now\<rparr>)
                       (sentMessages c)\<rparr>
         in if method message = Some ''workspace/didChangeWatchedFiles'' then (c1, None)
            else if method message = Some ''workspace/symbol'' then (c1, None)
            else (c1, Some message)))"

text \<open>\<open>response_filter\<close> looks the entry up and deletes it before anything else; the
  warning for a slow response is \<open>slow_response\<close>. Then, by the method of the entry: for a
  hover it reads \<open>message.result.contents.value\<close>, which throws a \<open>TypeError\<close> when
  \<open>result\<close> or \<open>contents\<close> is absent, and rewrites a non-empty value; for document
  links it returns at once when \<open>result\<close> is absent, and otherwise goes through the
  links, which throws when \<open>result\<close> is not an array or a link has no \<open>target\<close>, and
  replaces the target and the tooltip of each \<open>uid://\<close> link that resolves. The table is
  changed before any of this, so the client is the same whether the filter returns or
  throws.\<close>

definition slow_response :: "int \<Rightarrow> sent_entry option \<Rightarrow> bool" where
  "slow_response now sentMessage =
     (case sentMessage of None \<Rightarrow> False | Some sent \<Rightarrow> timestamp sent \<noteq> 0 \<and> now - timestamp sent > 1000)"

definition is_uid :: "string \<Rightarrow> bool" where
  "is_uid t = (take 6 t = ''uid://'')"

definition resolve_link :: "externals \<Rightarrow> link \<Rightarrow> link" where
  "resolve_link ext l =
     (case link_target l of
        None \<Rightarrow> l
      | Some t \<Rightarrow>
          (if is_uid t then
             (case resolve_uid ext t of
                None \<Rightarrow> l
              | Some (fileUri, resourcePath) \<Rightarrow>
                  l\<lparr>link_target := Some fileUri,
                    tooltip := Some (case resourcePath of Some r \<Rightarrow> r | None \<Rightarrow> fileUri)\<rparr>)
           else l))"

definition response_filter ::
    "externals \<Rightarrow> int \<Rightarrow> message \<Rightarrow> client \<Rightarrow> client \<times> (error + message option)" where
  "response_filter ext now message c =
     (let sentMessage = map_of (sentMessages c) (msg_id message);
          c1 = c\<lparr>sentMessages := AList.delete (msg_id message) (sentMessages c)\<rparr>;
          sent_method = (case sentMessage of None \<Rightarrow> None | Some sent \<Rightarrow> method sent)
      in (c1,
          if sent_method = Some ''textDocument/hover'' then
            (case result message of
               Contents v \<Rightarrow>
                 (case v of
                    None \<Rightarrow> Inr (Some message)
                  | Some val \<Rightarrow>
                      Inr (Some (message\<lparr>result := Contents (Some (fix_markdown ext val))\<rparr>)))
             | _ \<Rightarrow> Inl TypeError)
          else if sent_method = Some ''textDocument/documentLink'' then
            (case result message of
               Absent \<Rightarrow> Inr (Some message)
             | Links ls \<Rightarrow>
                 (if list_ex (\<lambda>l. link_target l = None) ls then Inl TypeError
                  else Inr (Some (message\<lparr>result := Links (map (resolve_link ext) ls)\<rparr>)))
             | _ \<Rightarrow> Inl TypeError)
          else Inr (Some message)))"

definition resetAndDestroy :: "sock \<Rightarrow> sock" where
  "resetAndDestroy s = destroy s"

text \<open>\<open>notification_filter\<close> always hands the message back. For a workspace-change
  notification it calls the \<open>async\<close> method \<open>check_workspace\<close> without awaiting it, for
  a capabilities notification it registers the capabilities and calls
  \<open>onCapabilitiesReceived\<close> of the manager; the result names these effects.\<close>

datatype notification_effect = Check_workspace | Capabilities_received

definition notification_filter :: "message \<Rightarrow> notification_effect list \<times> message option" where
  "notification_filter message =
     ((if method message = Some ''gdscript_client/changeWorkspace'' then [Check_workspace] else [])
        @ (if method message = Some ''gdscript/capabilities'' then [Capabilities_received] else []),
      Some message)"

text \<open>\<open>check_workspace\<close>, from the point where \<open>await get_project_dir()\<close> has returned
  \<open>project_dir\<close>, on the client as it is at that moment. \<open>path.normalize\<close> throws a
  \<open>TypeError\<close> on \<open>undefined\<close>, and so does \<open>this.io.socket.resetAndDestroy()\<close> when
  the field is \<open>null\<close>, before \<open>rejected\<close> is set.\<close>

definition check_workspace ::
    "externals \<Rightarrow> string option \<Rightarrow> message \<Rightarrow> client \<Rightarrow> error + client" where
  "check_workspace ext project_dir message c =
     (case (params_path message, project_dir) of
        (Some server_dir, Some client_dir) \<Rightarrow>
          (if normalize ext server_dir \<noteq> normalize ext client_dir then
             (case socket (io c) of
                None \<Rightarrow> Inl TypeError
              | Some i \<Rightarrow> Inr (c\<lparr>io := on_sock i resetAndDestroy (io c), rejected := True\<rparr>))
           else Inr c)
      | _ \<Rightarrow> Inl TypeError)"

definition on_connected :: "client \<Rightarrow> client \<times> ClientStatus list" where
  "on_connected c = set_status ClientStatus.CONNECTED c"

definition on_disconnected :: "client \<Rightarrow> client \<times> ClientStatus list" where
  "on_disconnected c =
     (if rejected c then set_status ClientStatus.REJECTED c
      else set_status ClientStatus.DISCONNECTED c)"

text \<open>The filter fields of the \<open>MessageIO\<close>, as the reader and the writer call them.\<close>

definition io_requestFilter :: "int \<Rightarrow> message \<Rightarrow> client \<Rightarrow> client \<times> message option" where
  "io_requestFilter now message c =
     (case requestFilter (io c) of
        Identity \<Rightarrow> (c, Some message)
      | Client_filter \<Rightarrow> request_filter now message c)"

definition io_responseFilter ::
    "externals \<Rightarrow> int \<Rightarrow> message \<Rightarrow> client \<Rightarrow> client \<times> (error + message option)" where
  "io_responseFilter ext now message c =
     (case responseFilter (io c) of
        Identity \<Rightarrow> (c, Inr (Some message))
      | Client_filter \<Rightarrow> response_filter ext now message c)"

definition io_notificationFilter ::
    "message \<Rightarrow> client \<Rightarrow> notification_effect list \<times> message option" where
  "io_notificationFilter message c =
     (case notificationFilter (io c) of
        Identity \<Rightarrow> ([], Some message)
      | Client_filter \<Rightarrow> notification_filter message)"

text \<open>\<open>MessageIOWriter.write\<close>: the frame is the header with the byte length of the JSON
  text, in decimal, and the text.\<close>

definition digit_char :: "nat \<Rightarrow> char" where
  "digit_char d = ''0123456789'' ! d"

fun decimal :: "nat \<Rightarrow> string" where
  "decimal n =
     (if n < 10 then [digit_char n]
      else decimal (n div 10) @ [digit_char (n mod 10)])"

declare decimal.simps [simp del]

definition frame_of :: "string \<Rightarrow> frame" where
  "frame_of json =
     ''Content-Length: '' @ decimal (length json) @ [CHR 0x0D, CHR 0x0A, CHR 0x0D, CHR 0x0A] @ json"

definition writer_write :: "externals \<Rightarrow> int \<Rightarrow> bool \<Rightarrow> message \<Rightarrow> client \<Rightarrow> client" where
  "writer_write ext now canContinue msg c =
     (case io_requestFilter now msg c of
        (c1, None) \<Rightarrow> c1
      | (c1, Some modified) \<Rightarrow>
          c1\<lparr>io := write_io (frame_of (stringify ext modified)) canContinue (io c1)\<rparr>)"

text \<open>An event of a socket reaches the client through the two handlers its constructor
  registered on the \<open>MessageIO\<close>, as long as \<open>disposeClient\<close> has not removed them.
  (\<open>"data"\<close> goes to the reader.)\<close>

fun deliver :: "emitted list \<Rightarrow> client \<Rightarrow> client \<times> ClientStatus list" where
  "deliver [] c = (c, [])"
| "deliver (Connected # es) c =
     (let (c1, s1) = on_connected c; (c2, s2) = deliver es c1 in (c2, s1 @ s2))"
| "deliver (Disconnected # es) c =
     (let (c1, s1) = on_disconnected c; (c2, s2) = deliver es c1 in (c2, s1 @ s2))"
| "deliver (Data chunk # es) c = deliver es c"

definition client_io_event :: "io_event \<Rightarrow> client \<Rightarrow> client \<times> ClientStatus list" where
  "client_io_event e c =
     (let (io1, emits) = io_step e (io c); c1 = c\<lparr>io := io1\<rparr>
      in if io_subscribed c then deliver emits c1 else (c1, []))"

text \<open>
  What can happen to one client object: the language client writes a message
  (\<open>Send\<close>); a message arrives (\<open>Receive\<close>) and \<open>processMessages\<close> passes it to the
  response filter if it has an \<open>id\<close>, and otherwise to the notification filter, which
  changes nothing in the client by itself; a call of \<open>check_workspace\<close> that a
  notification started resumes with the project directory (\<open>CheckWorkspace\<close>; an
  exception there is an unhandled rejection and changes nothing); \<open>disposeClient\<close> or
  \<open>connect\<close> is called; or the \<open>MessageIO\<close> of the client has one of its events.
\<close>

datatype client_event =
    Send message int bool
  | Receive message int
  | CheckWorkspace message "string option"
  | DisposeClient
  | ConnectCall TargetLSP bool
  | Socket io_event

fun client_step :: "config \<Rightarrow> externals \<Rightarrow> client_event \<Rightarrow> client \<Rightarrow> client" where
  "client_step cfg ext (Send msg now canContinue) c = writer_write ext now canContinue msg c"
| "client_step cfg ext (Receive msg now) c =
     (if msg_id msg \<noteq> None then fst (io_responseFilter ext now msg c) else c)"
| "client_step cfg ext (CheckWorkspace msg project_dir) c =
     (case check_workspace ext project_dir msg c of Inl err \<Rightarrow> c | Inr c1 \<Rightarrow> c1)"
| "client_step cfg ext DisposeClient c = disposeClient c"
| "client_step cfg ext (ConnectCall tgt tryAlternatePort) c =
     fst (client_connect cfg tgt tryAlternatePort c)"
| "client_step cfg ext (Socket e) c = fst (client_io_event e c)"


text \<open>The pending-request table over a run: whether a key has an entry, the events of a
  run at which the entry of a key disappears from the table, whether the key has an entry at
  some moment of the run, and how many messages with that identifier the run sends.\<close>

definition pending :: "json_id option \<Rightarrow> client \<Rightarrow> bool" where
  "pending k c = (map_of (sentMessages c) k \<noteq> None)"





section \<open>Connection manager: the class ClientConnectionManager\<close>

datatype ManagerStatus =
    INITIALIZING | INITIALIZING_LSP | PENDING | PENDING_LSP | DISCONNECTED | CONNECTED
  | RETRYING | WRONG_WORKSPACE | INITIALIZING_CLIENT

text \<open>
  The status handler \<open>on_client_status_changed\<close> is an \<open>async\<close> method. Its
  \<open>CONNECTED\<close> case awaits \<open>client.start()\<close> and then \<open>waitForCapabilities\<close>, its
  \<open>DISCONNECTED\<close> case awaits \<open>create_new_client\<close>, which awaits \<open>client.dispose()\<close>;
  what follows an \<open>await\<close> runs later, on the manager as it is then, and timer callbacks
  and other invocations of the handler run in between. The model keeps every invocation
  that has reached an \<open>await\<close> in the list \<open>handlers\<close> (an invocation's identity is its
  index): it waits for the start of the client, for the capabilities (with the timeout of
  its timer, in milliseconds), or for the disposal of the old client (with the port it has
  read from it), or it has finished. An \<open>await\<close> of a promise that is already settled is
  not a separate step.
\<close>

datatype handler_state =
    Await_start
  | Await_capabilities nat
  | Await_dispose int
  | Finished

text \<open>The fields of the manager that the status handler and the retry path use.
  \<open>capabilitiesResolver\<close> is \<open>None\<close> for \<open>null\<close> and otherwise names the invocation
  whose wait the stored resolver ends, \<open>connectedToLSP\<close> is the context key written with
  \<open>set_context\<close>, and \<open>logged\<close> collects what the \<open>CONNECTED\<close> case of the status
  handler writes to the log. The manager's field \<open>target\<close> is \<open>mgr_target\<close> here, the
  client having a field of that name. The status bar, the prompts and the three event
  emitters are left out.\<close>

record manager =
  client :: client
  capabilitiesReceived :: bool
  capabilitiesResolver :: "nat option"
  reconnectionAttempts :: int
  mgr_target :: TargetLSP
  status :: ManagerStatus
  retry :: bool
  connectedToLSP :: bool
  logged :: "log_entry list"
  handlers :: "handler_state list"

text \<open>What the language client answers when the handler asks \<open>needsStart()\<close>.\<close>

record handshake =
  needsStart :: bool

fun error_message :: "error \<Rightarrow> string" where
  "error_message (Error msg) = msg"
| "error_message TypeError = ''TypeError''"

definition write_log :: "log_level \<Rightarrow> string \<Rightarrow> manager \<Rightarrow> manager" where
  "write_log level text m = m\<lparr>logged := logged m @ [(level, text)]\<rparr>"

definition suspend :: "handler_state \<Rightarrow> manager \<Rightarrow> manager" where
  "suspend h m = m\<lparr>handlers := handlers m @ [h]\<rparr>"

definition settle :: "nat \<Rightarrow> manager \<Rightarrow> manager" where
  "settle k m = m\<lparr>handlers := (handlers m)[k := Finished]\<rparr>"

definition suspended_in :: "nat \<Rightarrow> handler_state \<Rightarrow> manager \<Rightarrow> bool" where
  "suspended_in k h m = (k < length (handlers m) \<and> handlers m ! k = h)"

text \<open>The four assignments that end each branch of the \<open>CONNECTED\<close> case.\<close>

definition declare_connected :: "manager \<Rightarrow> manager" where
  "declare_connected m =
     m\<lparr>retry := False, reconnectionAttempts := 0, connectedToLSP := True,
       status := ManagerStatus.CONNECTED\<rparr>"

text \<open>The handler up to its first \<open>await\<close>, or to its end when it has none. The
  \<open>DISCONNECTED\<close> case enters \<open>create_new_client\<close>, which reads the port, calls
  \<open>disposeClient\<close> on the old client and awaits its \<open>dispose()\<close>; the field \<open>client\<close>
  still holds the old client then.\<close>

definition on_client_status_changed :: "handshake \<Rightarrow> ClientStatus \<Rightarrow> manager \<Rightarrow> manager" where
  "on_client_status_changed hs st m =
     (case st of
        ClientStatus.PENDING \<Rightarrow> m\<lparr>status := ManagerStatus.PENDING\<rparr>
      | ClientStatus.CONNECTED \<Rightarrow>
          (let m1 = m\<lparr>capabilitiesReceived := False, capabilitiesResolver := None,
                      status := INITIALIZING_CLIENT\<rparr>
           in if needsStart hs then suspend Await_start m1 else declare_connected m1)
      | ClientStatus.DISCONNECTED \<Rightarrow>
          (let m1 = m\<lparr>connectedToLSP := False\<rparr>;
               port0 = port (client m1)
           in suspend (Await_dispose port0) (m1\<lparr>client := disposeClient (client m1)\<rparr>))
      | ClientStatus.REJECTED \<Rightarrow> m\<lparr>status := WRONG_WORKSPACE, retry := False\<rparr>)"

text \<open>The rest of the \<open>CONNECTED\<close> case, once the wait of invocation \<open>k\<close> has been
  resolved, and once it has been rejected with an error (or \<open>start()\<close> has been).\<close>

definition capabilities_resolved :: "nat \<Rightarrow> manager \<Rightarrow> manager" where
  "capabilities_resolved k m =
     declare_connected (write_log Info ''LSP capabilities received'' (settle k m))"

definition initialization_failed :: "nat \<Rightarrow> error \<Rightarrow> manager \<Rightarrow> manager" where
  "initialization_failed k err m =
     declare_connected
       (write_log Warn (''LSP initialization issue: '' @ error_message err) (settle k m))"

text \<open>\<open>waitForCapabilities(timeoutMs)\<close>, called by invocation \<open>k\<close>: resolved at once when
  the capabilities are already there, otherwise the timer is set and the resolver stored.\<close>

definition waitForCapabilities :: "nat \<Rightarrow> nat \<Rightarrow> manager \<Rightarrow> manager" where
  "waitForCapabilities k timeoutMs m =
     (if capabilitiesReceived m then capabilities_resolved k m
      else m\<lparr>capabilitiesResolver := Some k,
             handlers := (handlers m)[k := Await_capabilities timeoutMs]\<rparr>)"

text \<open>\<open>client.start()\<close> of invocation \<open>k\<close> settles: it resolves (\<open>None\<close>) or
  rejects.\<close>

definition start_settled :: "nat \<Rightarrow> error option \<Rightarrow> manager \<Rightarrow> manager" where
  "start_settled k outcome m =
     (if suspended_in k Await_start m then
        (case outcome of
           Some err \<Rightarrow> initialization_failed k err m
         | None \<Rightarrow>
             waitForCapabilities k 30000
               (write_log Info ''LSP Client started, waiting for capabilities...'' m))
      else m)"

text \<open>\<open>onCapabilitiesReceived\<close>: the stored resolver clears the timer of its wait and
  resolves it, and the field is set to \<open>null\<close>; the invocation that was waiting then
  goes on.\<close>

definition onCapabilitiesReceived :: "manager \<Rightarrow> manager" where
  "onCapabilitiesReceived m =
     (let m1 = m\<lparr>capabilitiesReceived := True\<rparr>
      in case capabilitiesResolver m1 of
           None \<Rightarrow> m1
         | Some k \<Rightarrow>
             (let m2 = m1\<lparr>capabilitiesResolver := None\<rparr>
              in case (if k < length (handlers m2) then handlers m2 ! k else Finished) of
                   Await_capabilities timeoutMs \<Rightarrow> capabilities_resolved k m2
                 | _ \<Rightarrow> m2))"

text \<open>The timer of the wait of invocation \<open>k\<close> fires: its callback sets the resolver
  field to \<open>null\<close> and rejects, and the \<open>catch\<close> of the invocation goes on.\<close>

definition capabilities_timeout :: "nat \<Rightarrow> manager \<Rightarrow> manager" where
  "capabilities_timeout k m =
     (case (if k < length (handlers m) then handlers m ! k else Finished) of
        Await_capabilities timeoutMs \<Rightarrow>
          initialization_failed k
            (Error (''LSP capabilities timeout after '' @ decimal timeoutMs @ ''ms''))
            (m\<lparr>capabilitiesResolver := None\<rparr>)
      | _ \<Rightarrow> m)"

text \<open>\<open>client.dispose()\<close> of invocation \<open>k\<close> settles (an error is caught and logged):
  \<open>create_new_client\<close> makes the new client with the port read before, and the
  \<open>DISCONNECTED\<close> case goes on, reading \<open>retry\<close> as it is now.\<close>

definition create_new_client :: "int \<Rightarrow> manager \<Rightarrow> manager" where
  "create_new_client port0 m =
     m\<lparr>client := new_GDScriptLanguageClient\<lparr>port := port0, status_listeners := True\<rparr>\<rparr>"

definition dispose_settled :: "nat \<Rightarrow> manager \<Rightarrow> manager" where
  "dispose_settled k m =
     (case (if k < length (handlers m) then handlers m ! k else Finished) of
        Await_dispose port0 \<Rightarrow>
          (let m2 = create_new_client port0 (settle k m);
               m3 = m2\<lparr>capabilitiesReceived := False, capabilitiesResolver := None\<rparr>;
               m4 = (if retry m3 then
                       (if port (client m3) \<noteq> - 1 then m3\<lparr>status := INITIALIZING_LSP\<rparr>
                        else m3\<lparr>status := RETRYING\<rparr>)
                     else m3\<lparr>status := ManagerStatus.DISCONNECTED\<rparr>)
           in m4\<lparr>retry := True\<rparr>)
      | _ \<Rightarrow> m)"

text \<open>The statuses a client emits reach the handler one after the other; each invocation
  runs up to its first \<open>await\<close> before the next starts.\<close>

fun notify :: "handshake \<Rightarrow> ClientStatus list \<Rightarrow> manager \<Rightarrow> manager" where
  "notify hs [] m = m"
| "notify hs (st # sts) m = notify hs sts (on_client_status_changed hs st m)"

text \<open>An event of a socket of the current client, seen from the manager: the client's
  handlers run, and each status they emit starts the manager's handler.\<close>

definition manager_io_event :: "handshake \<Rightarrow> io_event \<Rightarrow> manager \<Rightarrow> manager" where
  "manager_io_event hs e m =
     (let (c1, sts) = client_io_event e (client m) in notify hs sts (m\<lparr>client := c1\<rparr>))"

text \<open>\<open>retry_connect_client\<close> and the timer callback \<open>retry_callback\<close>; the second
  component is the port of the connection attempt, if one is made.\<close>

definition retry_connect_client ::
    "config \<Rightarrow> handshake \<Rightarrow> manager \<Rightarrow> manager \<times> int option" where
  "retry_connect_client cfg hs m =
     (let autoRetry = autoReconnect_enabled cfg;
          maxAttempts = autoReconnect_attempts cfg
      in if autoRetry \<and> reconnectionAttempts m \<le> maxAttempts - 1 then
           (let m1 = m\<lparr>reconnectionAttempts := reconnectionAttempts m + 1\<rparr>;
                tryAlternatePort = (reconnectionAttempts m1 mod 2 = 0);
                (c1, tried, sts) = client_connect cfg (mgr_target m1) tryAlternatePort (client m1);
                m2 = notify hs sts (m1\<lparr>client := c1\<rparr>)
            in (m2\<lparr>retry := True\<rparr>, Some tried))
         else (m\<lparr>retry := False, status := ManagerStatus.DISCONNECTED\<rparr>, None))"

definition retry_callback :: "config \<Rightarrow> handshake \<Rightarrow> manager \<Rightarrow> manager \<times> int option" where
  "retry_callback cfg hs m = (if retry m then retry_connect_client cfg hs m else (m, None))"

text \<open>\<open>connect_to_language_server\<close>; \<open>launched\<close> is the port \<open>start_language_server\<close>
  stores in \<open>client.port\<close> when it launches a headless server, and \<open>None\<close> when it
  returns early.\<close>

definition connect_to_language_server ::
    "config \<Rightarrow> handshake \<Rightarrow> int option \<Rightarrow> manager \<Rightarrow> manager \<times> int" where
  "connect_to_language_server cfg hs launched m =
     (let m1 = m\<lparr>client := (client m)\<lparr>port := - 1\<rparr>, mgr_target := EDITOR\<rparr>;
          m2 = (if headless cfg then
                  (let m' = m1\<lparr>mgr_target := HEADLESS\<rparr>
                   in case launched of
                        None \<Rightarrow> m'
                      | Some p \<Rightarrow> m'\<lparr>client := (client m')\<lparr>port := p\<rparr>\<rparr>)
                else m1);
          m3 = m2\<lparr>reconnectionAttempts := 0\<rparr>;
          (c1, tried, sts) = client_connect cfg (mgr_target m3) False (client m3)
      in (notify hs sts (m3\<lparr>client := c1\<rparr>), tried))"

text \<open>The manager as its constructor leaves it before it calls
  \<open>connect_to_language_server\<close>.\<close>

definition new_ClientConnectionManager :: manager where
  "new_ClientConnectionManager =
     \<lparr> client = new_GDScriptLanguageClient\<lparr>status_listeners := True\<rparr>,
       capabilitiesReceived = False, capabilitiesResolver = None, reconnectionAttempts = 0,
       mgr_target = EDITOR, status = INITIALIZING, retry = False, connectedToLSP = False,
       logged = [], handlers = [] \<rparr>"

text \<open>What can happen to the manager: the retry timer ticks; its current client has one
  of the events of a client (a received capabilities notification, if the notification
  filter of the client is in place, calls \<open>onCapabilitiesReceived\<close>); the start of the
  client, the timer of a wait or the disposal of an old client, on which an invocation of
  the status handler is suspended, comes due.\<close>

fun client_emits :: "config \<Rightarrow> externals \<Rightarrow> client_event \<Rightarrow> client \<Rightarrow> ClientStatus list" where
  "client_emits cfg ext (ConnectCall tgt tryAlternatePort) c =
     snd (snd (client_connect cfg tgt tryAlternatePort c))"
| "client_emits cfg ext (Socket e) c = snd (client_io_event e c)"
| "client_emits cfg ext e c = []"

fun notification_effects :: "client_event \<Rightarrow> client \<Rightarrow> notification_effect list" where
  "notification_effects (Receive msg now) c =
     (if msg_id msg = None \<and> method msg \<noteq> None then fst (io_notificationFilter msg c) else [])"
| "notification_effects e c = []"

definition manager_client_event ::
    "config \<Rightarrow> externals \<Rightarrow> handshake \<Rightarrow> client_event \<Rightarrow> manager \<Rightarrow> manager" where
  "manager_client_event cfg ext hs e m =
     (let effects = notification_effects e (client m);
          m1 = notify hs (client_emits cfg ext e (client m))
                 (m\<lparr>client := client_step cfg ext e (client m)\<rparr>)
      in if Capabilities_received \<in> set effects then onCapabilitiesReceived m1 else m1)"

datatype manager_event =
    Tick
  | Client client_event
  | Start_settled nat "error option"
  | Capabilities_timeout nat
  | Dispose_settled nat

fun manager_step :: "config \<Rightarrow> externals \<Rightarrow> handshake \<Rightarrow> manager_event \<Rightarrow> manager \<Rightarrow> manager"
  where
  "manager_step cfg ext hs Tick m = fst (retry_callback cfg hs m)"
| "manager_step cfg ext hs (Client e) m = manager_client_event cfg ext hs e m"
| "manager_step cfg ext hs (Start_settled k outcome) m = start_settled k outcome m"
| "manager_step cfg ext hs (Capabilities_timeout k) m = capabilities_timeout k m"
| "manager_step cfg ext hs (Dispose_settled k) m = dispose_settled k m"

text \<open>A run of the manager; each event comes with what \<open>needsStart()\<close> of the client
  answers while it is handled.\<close>

fun manager_run ::
    "config \<Rightarrow> externals \<Rightarrow> (handshake \<times> manager_event) list \<Rightarrow> manager \<Rightarrow> manager" where
  "manager_run cfg ext [] m = m"
| "manager_run cfg ext ((hs, e) # es) m = manager_run cfg ext es (manager_step cfg ext hs e m)"

text \<open>A run of failed reconnect attempts: the timer callback makes an attempt, the
  socket of that attempt then has an \<open>"error"\<close> event (the connection is refused), and
  the disposal of the old client, which the status handler awaits, settles before the timer
  ticks again. The result lists the ports of the attempts.\<close>

definition latest_socket :: "client \<Rightarrow> nat" where
  "latest_socket c = length (sockets (io c)) - 1"

definition refused :: "handshake \<Rightarrow> manager \<Rightarrow> manager" where
  "refused hs m =
     (let m1 = manager_io_event hs (SockError (latest_socket (client m))) m
      in dispose_settled (length (handlers m1) - 1) m1)"

fun failed_retries :: "config \<Rightarrow> handshake \<Rightarrow> nat \<Rightarrow> manager \<Rightarrow> int list" where
  "failed_retries cfg hs 0 m = []"
| "failed_retries cfg hs (Suc n) m =
     (case retry_callback cfg hs m of
        (m1, None) \<Rightarrow> []
      | (m1, Some tried) \<Rightarrow> tried # failed_retries cfg hs n (refused hs m1))"

section \<open>Reader: the method processMessages of MessageIOReader\<close>

text \<open>
  Modelled from the spec: the class \<open>MessageBuffer\<close> (src/lsp/MessageBuffer.ts is not
  among the sources), of which the reader uses \<open>append\<close> and \<open>ready\<close>. By the spec's
  Frame Codec it turns the accumulated bytes into the complete JSON payloads, in order, and
  keeps a partial frame until it is complete. The model holds the payloads that are complete
  and not yet taken: \<open>append\<close> adds the messages a chunk completes, and \<open>ready\<close> takes
  the first one, if any (the two patterns of \<open>process\<close> below).
\<close>

definition buffer_append :: "message list \<Rightarrow> message list \<Rightarrow> message list" where
  "buffer_append completed buf = buf @ completed"

text \<open>
  \<open>on_data\<close> appends the chunk and calls the \<open>async\<close> method \<open>processMessages\<close>
  without awaiting it. An invocation of \<open>processMessages\<close> runs its loop until the buffer
  has nothing ready, a filter answers \<open>false\<close>, or it reaches
  \<open>await this.io.responseFilter(json)\<close>, where it is suspended with the message it holds.
  The reader state has the buffer, the messages of the suspended invocations, and the
  messages handed to \<open>callback\<close>, in order. \<open>nf\<close> says whether the notification filter
  lets a message through.
\<close>

record reader =
  buffer :: "message list"
  awaiting :: "message list"
  delivered :: "message list"

definition new_reader :: reader where
  "new_reader = \<lparr> buffer = [], awaiting = [], delivered = [] \<rparr>"

fun process :: "(message \<Rightarrow> bool) \<Rightarrow> message list \<Rightarrow> message list \<Rightarrow> message list \<Rightarrow> reader"
  where
  "process nf [] aw del = \<lparr> buffer = [], awaiting = aw, delivered = del \<rparr>"
| "process nf (json # rest) aw del =
     (if msg_id json \<noteq> None then \<lparr> buffer = rest, awaiting = aw @ [json], delivered = del \<rparr>
      else if method json \<noteq> None then
        (if nf json then process nf rest aw (del @ [json])
         else \<lparr> buffer = rest, awaiting = aw, delivered = del \<rparr>)
      else process nf rest aw (del @ [json]))"

definition processMessages :: "(message \<Rightarrow> bool) \<Rightarrow> reader \<Rightarrow> reader" where
  "processMessages nf r = process nf (buffer r) (awaiting r) (delivered r)"

definition reader_on_data :: "(message \<Rightarrow> bool) \<Rightarrow> message list \<Rightarrow> reader \<Rightarrow> reader" where
  "reader_on_data nf completed r = processMessages nf (r\<lparr>buffer := buffer_append completed (buffer r)\<rparr>)"

text \<open>The response filter of the \<open>k\<close>-th suspended invocation settles: with a message
  (\<open>True\<close>), and the invocation hands its message to \<open>callback\<close> and goes on with its
  loop; or with \<open>false\<close> or an exception (\<open>False\<close>), and the invocation ends.\<close>

definition resume :: "(message \<Rightarrow> bool) \<Rightarrow> nat \<Rightarrow> bool \<Rightarrow> reader \<Rightarrow> reader" where
  "resume nf k forwarded r =
     (if k < length (awaiting r) then
        (let json = awaiting r ! k;
             r1 = r\<lparr>awaiting := take k (awaiting r) @ drop (Suc k) (awaiting r)\<rparr>
         in if forwarded then processMessages nf (r1\<lparr>delivered := delivered r1 @ [json]\<rparr>)
            else r1)
      else r)"

datatype reader_event = Chunk "message list" | FilterSettled nat bool

fun reader_step :: "(message \<Rightarrow> bool) \<Rightarrow> reader_event \<Rightarrow> reader \<Rightarrow> reader" where
  "reader_step nf (Chunk completed) r = reader_on_data nf completed r"
| "reader_step nf (FilterSettled k forwarded) r = resume nf k forwarded r"

fun reader_run :: "(message \<Rightarrow> bool) \<Rightarrow> reader_event list \<Rightarrow> reader \<Rightarrow> reader" where
  "reader_run nf [] r = r"
| "reader_run nf (e # es) r = reader_run nf es (reader_step nf e r)"

fun arrived :: "reader_event list \<Rightarrow> message list" where
  "arrived [] = []"
| "arrived (Chunk completed # es) = completed @ arrived es"
| "arrived (e # es) = arrived es"

section \<open>Auxiliary definitions\<close>

text \<open>A call of \<open>check_workspace\<close> of the manager's current client resumes.\<close>

definition manager_check_workspace ::
    "config \<Rightarrow> externals \<Rightarrow> message \<Rightarrow> string option \<Rightarrow> manager \<Rightarrow> manager" where
  "manager_check_workspace cfg ext msg project_dir m =
     m\<lparr>client := client_step cfg ext (CheckWorkspace msg project_dir) (client m)\<rparr>"

text \<open>The invariant behind the order of the frames on a socket, for the frames \<open>W\<close>
  passed to \<open>write\<close> so far: the cache and the wire of every socket are subsequences of
  \<open>W\<close>, a socket that has not connected has an empty wire, and the field \<open>socket\<close>
  refers to a connected socket.\<close>

definition sock_ok :: "frame list \<Rightarrow> sock \<Rightarrow> bool" where
  "sock_ok W s = (subseq (wire s) W \<and> (established s \<or> wire s = []))"

definition wire_inv :: "frame list \<Rightarrow> MessageIO \<Rightarrow> bool" where
  "wire_inv W t =
     (subseq (messageCache t) W \<and> list_all (sock_ok W) (sockets t)
      \<and> (case socket t of
            None \<Rightarrow> True
          | Some i \<Rightarrow> i < length (sockets t) \<and> established (sockets t ! i)))"

text \<open>A socket is live while its handlers are attached or it has not been destroyed. A
  \<open>MessageIO\<close> has no stray socket when every live socket is the one its field
  \<open>socket\<close> refers to, and a run is sequential when each of its calls of \<open>connect\<close>
  comes at such a moment: no earlier socket is still connecting.\<close>

definition live :: "sock \<Rightarrow> bool" where
  "live s = (listeners s \<or> \<not> destroyed s)"

definition no_stray :: "MessageIO \<Rightarrow> bool" where
  "no_stray t =
     list_all (\<lambda>j. \<not> live (sockets t ! j) \<or> socket t = Some j) [0 ..< length (sockets t)]"

fun sequential :: "io_event list \<Rightarrow> MessageIO \<Rightarrow> bool" where
  "sequential [] t = True"
| "sequential (Connect h p # es) t = (no_stray t \<and> sequential es (connect h p t))"
| "sequential (e # es) t = sequential es (fst (io_step e t))"

text \<open>The reader takes one message at a time when no chunk arrives while a response
  filter is pending; \<open>reader_inv\<close> is the invariant of such runs, for the messages \<open>A\<close>
  arrived so far.\<close>

fun one_at_a_time :: "(message \<Rightarrow> bool) \<Rightarrow> reader_event list \<Rightarrow> reader \<Rightarrow> bool" where
  "one_at_a_time nf [] r = True"
| "one_at_a_time nf (Chunk completed # es) r =
     (awaiting r = [] \<and> one_at_a_time nf es (reader_on_data nf completed r))"
| "one_at_a_time nf (e # es) r = one_at_a_time nf es (reader_step nf e r)"

definition reader_inv :: "message list \<Rightarrow> reader \<Rightarrow> bool" where
  "reader_inv A r = (subseq (delivered r @ awaiting r @ buffer r) A \<and> length (awaiting r) \<le> 1)"

text \<open>The manager between two reconnect attempts after a failure: its client is the one
  \<open>create_new_client\<close> has just made, the target is the editor, and the retry flag is
  set.\<close>

definition retry_ready :: "manager \<Rightarrow> bool" where
  "retry_ready m =
     (client m = new_GDScriptLanguageClient\<lparr>port := - 1, status_listeners := True\<rparr>
      \<and> mgr_target m = EDITOR \<and> retry m)"

text \<open>Concrete values for the examples.\<close>

definition sample_config :: config where
  "sample_config = \<lparr> serverHost = ''127.0.0.1'', serverPort = 6005, headless = False,
     autoReconnect_enabled = True, autoReconnect_attempts = 10 \<rparr>"

definition sample_externals :: externals where
  "sample_externals = \<lparr> stringify = (\<lambda>msg. ''{}''), normalize = (\<lambda>dir. dir),
     fix_markdown = (\<lambda>val. val), resolve_uid = (\<lambda>uid. None) \<rparr>"

definition sample_handshake :: handshake where
  "sample_handshake = \<lparr> needsStart = True \<rparr>"

definition hover_request :: message where
  "hover_request = \<lparr> msg_id = Some (IdNum 1), method = Some ''textDocument/hover'',
     params_path = None, result = Absent \<rparr>"


definition link_response :: message where
  "link_response = \<lparr> msg_id = Some (IdNum 2), method = None, params_path = None,
     result = Links [\<lparr> link_target = Some ''uid://c4cp0al3ljsjv'', tooltip = None \<rparr>] \<rparr>"

definition symbol_request :: message where
  "symbol_request = \<lparr> msg_id = Some (IdNum 1), method = Some ''workspace/symbol'',
     params_path = None, result = Absent \<rparr>"

definition diagnostics_notification :: message where
  "diagnostics_notification = \<lparr> msg_id = None,
     method = Some ''textDocument/publishDiagnostics'', params_path = None, result = Absent \<rparr>"

definition workspace_notification :: message where
  "workspace_notification = \<lparr> msg_id = None,
     method = Some ''gdscript_client/changeWorkspace'', params_path = Some ''/srv/game'',
     result = Absent \<rparr>"




text \<open>The manager after its first connection attempt; after the socket of that attempt
  has connected, while the status handler awaits the start of the client; after the start
  and the capabilities notification; and after the first attempt has been refused
  instead.\<close>

definition first_attempt :: manager where
  "first_attempt =
     fst (connect_to_language_server sample_config sample_handshake None new_ClientConnectionManager)"

definition handshaking_manager :: manager where
  "handshaking_manager =
     manager_step sample_config sample_externals sample_handshake (Client (Socket (SockConnect 0)))
       first_attempt"


definition refused_manager :: manager where
  "refused_manager = refused sample_handshake first_attempt"



text \<open>A connection made by a reconnect attempt: the first attempt is refused and the
  retry timer makes the next one (\<open>retrying_manager\<close>); its socket connects and the client
  starts, so the status handler is waiting for the capabilities (\<open>waiting_manager\<close>); and
  the retry timer ticks during that wait (\<open>interrupted_manager\<close>).\<close>

definition retrying_manager :: manager where
  "retrying_manager =
     manager_step sample_config sample_externals sample_handshake Tick refused_manager"

definition waiting_manager :: manager where
  "waiting_manager =
     manager_run sample_config sample_externals
       (map (Pair sample_handshake) [Client (Socket (SockConnect 0)), Start_settled 1 None])
       retrying_manager"

definition interrupted_manager :: manager where
  "interrupted_manager =
     manager_step sample_config sample_externals sample_handshake Tick waiting_manager"

text \<open>The manager that is told of another workspace while the status handler still awaits
  the start of the client, after the socket has closed.\<close>

definition early_rejected_manager :: manager where
  "early_rejected_manager =
     manager_io_event sample_handshake (SockClose 0)
       (manager_check_workspace sample_config sample_externals workspace_notification
          (Some ''/home/me/game'') handshaking_manager)"

text \<open>The handshake of invocation \<open>k\<close> of the status handler: it awaits the start of the
  client or the capabilities, with the timer of 30 s, or has finished.\<close>

definition in_handshake :: "nat \<Rightarrow> manager \<Rightarrow> bool" where
  "in_handshake k m =
     (k < length (handlers m)
      \<and> (handlers m ! k = Await_start \<or> handlers m ! k = Await_capabilities 30000
           \<or> handlers m ! k = Finished))"

text \<open>The events in which no client event takes part and no disposal settles: ticks of the
  retry timer, and the start or the capabilities timer of a suspended invocation coming
  due.\<close>

fun tick_or_handshake :: "manager_event \<Rightarrow> bool" where
  "tick_or_handshake Tick = True"
| "tick_or_handshake (Start_settled k outcome) = True"
| "tick_or_handshake (Capabilities_timeout k) = True"
| "tick_or_handshake e = False"

section \<open>Transport: sockets and the order of frames\<close>

lemma flush_wire: "wire (flush ms s) = (if destroyed s then wire s else wire s @ ms)"
  by (induction ms arbitrary: s) (auto simp: sock_write_def)

lemma flush_fields:
  "listeners (flush ms s) = listeners s" "destroyed (flush ms s) = destroyed s"
  "established (flush ms s) = established s" "timer (flush ms s) = timer s"
  by (induction ms arbitrary: s) (auto simp: sock_write_def)

lemma on_sock_simps:
  "socket (on_sock i f t) = socket t" "messageCache (on_sock i f t) = messageCache t"
  "length (sockets (on_sock i f t)) = length (sockets t)"
  by (simp_all add: on_sock_def)

text \<open>What \<open>connect\<close> does tear down: the socket the field \<open>socket\<close> refers to, and
  the cache.\<close>

lemma connect_tears_down_referenced_socket:
  assumes "socket t = Some i" "i < length (sockets t)"
  shows "destroyed (sockets (connect h p t) ! i)
     \<and> \<not> listeners (sockets (connect h p t) ! i)
     \<and> socket (connect h p t) = None
     \<and> messageCache (connect h p t) = []"
  using assms
  by (simp add: connect_def Let_def on_sock_def destroy_def removeAllListeners_def nth_append)

text \<open>
  C1 (fails on the code). The claim: over any sequence of \<open>connect\<close> calls at most one
  socket is open, and once a later \<open>connect\<close> has begun no handler of an earlier socket
  fires. \<open>connect\<close> tears down only the socket in the field \<open>socket\<close>, which is set
  when a socket connects; a socket that is still connecting when \<open>connect\<close> is called
  again is left alone. After two calls of \<open>connect\<close> in a row the handlers of both
  sockets are attached, an \<open>"error"\<close> event of the first socket runs its handler, which
  emits \<open>disconnected\<close>, and when both sockets connect, both are open.
\<close>

theorem overlapping_connects_leave_two_sockets:
  "live_handlers (io_run [Connect ''127.0.0.1'' 6005, Connect ''127.0.0.1'' 6008] new_MessageIO)
     = [0, 1]
   \<and> snd (io_step (SockError 0)
        (io_run [Connect ''127.0.0.1'' 6005, Connect ''127.0.0.1'' 6008] new_MessageIO))
     = [Disconnected]
   \<and> open_sockets (io_run [Connect ''127.0.0.1'' 6005, Connect ''127.0.0.1'' 6008,
        SockConnect 0, SockConnect 1] new_MessageIO)
     = [0, 1]"
  by code_simp

text \<open>When no call of \<open>connect\<close> comes while an earlier socket is still connecting, at
  most one socket is live at any time: at most one is open, and at most one has handlers
  that can fire.\<close>

lemma filter_live_update:
  assumes "\<And>s. live (f s) \<Longrightarrow> live s"
  shows "length (filter live (xs[i := f (xs ! i)])) \<le> length (filter live xs)"
proof (induction xs arbitrary: i)
  case Nil
  then show ?case by simp
next
  case (Cons x xs)
  show ?case
  proof (cases i)
    case 0
    then show ?thesis using assms[of x] by auto
  next
    case (Suc j)
    then show ?thesis using Cons.IH[of j] by auto
  qed
qed

lemma live_on_sock:
  assumes "\<And>s. live (f s) \<Longrightarrow> live s"
  shows "length (filter live (sockets (on_sock i f t))) \<le> length (filter live (sockets t))"
  by (simp add: on_sock_def filter_live_update[OF assms])

lemma live_kept:
  "live (flush ms s) = live s" "live (sock_write m s) = live s"
  "live (s\<lparr>timer := b, established := b'\<rparr>) = live s"
  "\<not> live (destroy (removeAllListeners s))"
  by (simp_all add: live_def flush_fields sock_write_def destroy_def removeAllListeners_def)

lemma no_stray_connect:
  assumes "no_stray t"
  shows "filter live (sockets (connect h p t)) = [new_Socket h p]"
proof -
  have stray: "\<And>j. j < length (sockets t) \<Longrightarrow> live (sockets t ! j) \<Longrightarrow> socket t = Some j"
    using assms by (auto simp: no_stray_def list_all_iff)
  have new: "live (new_Socket h p)" by (simp add: live_def new_Socket_def)
  show ?thesis
  proof (cases "socket t")
    case None
    with stray have "\<And>s. s \<in> set (sockets t) \<Longrightarrow> \<not> live s"
      by (auto simp: in_set_conv_nth)
    then have "filter live (sockets t) = []" by (simp add: filter_empty_conv)
    with None new show ?thesis by (simp add: connect_def Let_def)
  next
    case (Some i)
    have "\<not> live s" if "s \<in> set ((sockets t)[i := destroy (removeAllListeners (sockets t ! i))])" for s
    proof -
      from that obtain j where j: "j < length (sockets t)"
          "s = (sockets t)[i := destroy (removeAllListeners (sockets t ! i))] ! j"
        by (auto simp: in_set_conv_nth)
      show ?thesis
      proof (cases "j = i")
        case True
        with j show ?thesis by (simp add: live_kept)
      next
        case False
        with j stray[of j] Some show ?thesis by auto
      qed
    qed
    then have "filter live ((sockets t)[i := destroy (removeAllListeners (sockets t ! i))]) = []"
      by (simp add: filter_empty_conv)
    with Some new show ?thesis by (simp add: connect_def Let_def on_sock_def)
  qed
qed

lemma live_step:
  assumes "length (filter live (sockets t)) \<le> 1"
    and "\<And>h p. e = Connect h p \<Longrightarrow> no_stray t"
  shows "length (filter live (sockets (fst (io_step e t)))) \<le> 1"
proof (cases e)
  case (Connect h p)
  with assms(2) no_stray_connect[of t h p] show ?thesis by simp
next
  case (Write m b)
  have "length (filter live (sockets (write_io m b t))) \<le> length (filter live (sockets t))"
    using live_on_sock[of "sock_write m" _ t]
    by (auto simp: write_io_def live_kept Let_def split: option.splits)
  with Write assms(1) show ?thesis by simp
next
  case (SockConnect i)
  have "length (filter live (sockets (fst (on_connect i t)))) \<le> length (filter live (sockets t))"
    using live_on_sock[of "\<lambda>s. flush (messageCache t) (s\<lparr>timer := False, established := True\<rparr>)" i t]
    by (simp add: on_connect_def live_kept)
  with SockConnect assms(1) show ?thesis by simp
next
  case (SockDrain i)
  with assms(1) show ?thesis by (simp add: on_drain_def)
next
  case (SockError i)
  have "length (filter live (sockets (fst (on_error i t)))) \<le> length (filter live (sockets t))"
    using live_on_sock[of "\<lambda>s. destroy (removeAllListeners (s\<lparr>timer := False\<rparr>))" i t]
    by (simp add: on_error_def Let_def live_kept)
  with SockError assms(1) show ?thesis by simp
next
  case (SockClose i)
  have "length (filter live (sockets (fst (on_close i t)))) \<le> length (filter live (sockets t))"
    using live_on_sock[of "\<lambda>s. destroy (removeAllListeners (s\<lparr>timer := False\<rparr>))" i t]
    by (simp add: on_close_def Let_def live_kept)
  with SockClose assms(1) show ?thesis by simp
next
  case (SockTimeout i)
  with assms(1) show ?thesis by simp
next
  case (SockData i chunk)
  with assms(1) show ?thesis by (simp add: on_data_def)
next
  case (ConnTimeout i)
  have "length (filter live (sockets (fst (on_connection_timeout i t)))) \<le> length (filter live (sockets t))"
    using live_on_sock[of "\<lambda>s. destroy (removeAllListeners (s\<lparr>timer := False\<rparr>))" i t]
    by (simp add: on_connection_timeout_def live_kept)
  with ConnTimeout assms(1) show ?thesis by simp
qed

lemma live_run:
  "length (filter live (sockets t)) \<le> 1 \<Longrightarrow> sequential es t
     \<Longrightarrow> length (filter live (sockets (io_run es t))) \<le> 1"
proof (induction es arbitrary: t)
  case Nil
  then show ?case by simp
next
  case (Cons e es)
  have step: "length (filter live (sockets (fst (io_step e t)))) \<le> 1"
    using Cons.prems by (intro live_step) auto
  have "sequential es (fst (io_step e t))"
    using Cons.prems(2) by (cases e) simp_all
  with step show ?case using Cons.IH by simp
qed

lemma one_socket_when_connects_do_not_overlap:
  assumes "sequential es new_MessageIO"
  shows "length (filter live (sockets (io_run es new_MessageIO))) \<le> 1"
  using assms by (intro live_run) (simp_all add: new_MessageIO_def)

lemma list_all_update:
  assumes "list_all P xs" and "i < length xs \<Longrightarrow> P (f (xs ! i))"
  shows "list_all P (xs[i := f (xs ! i)])"
proof (cases "i < length xs")
  case True
  with assms show ?thesis by (auto simp: list_all_length nth_list_update)
next
  case False
  with assms show ?thesis by (simp add: list_update_beyond not_less)
qed

lemma list_all_sock_ok_nth: "list_all (sock_ok W) xs \<Longrightarrow> i < length xs \<Longrightarrow> sock_ok W (xs ! i)"
  by (simp add: list_all_length)

lemma sock_ok_teardown:
  "sock_ok W s \<Longrightarrow> sock_ok W (destroy (removeAllListeners s))"
  "sock_ok W s \<Longrightarrow> sock_ok W (destroy (removeAllListeners (s\<lparr>timer := False\<rparr>)))"
  by (simp_all add: sock_ok_def destroy_def removeAllListeners_def)

lemma sock_ok_more: "sock_ok W s \<Longrightarrow> sock_ok (W @ [m]) s"
  by (auto simp: sock_ok_def intro: subseq_order.trans)

lemma list_all_sock_ok_more: "list_all (sock_ok W) xs \<Longrightarrow> list_all (sock_ok (W @ [m])) xs"
  by (auto simp: list_all_iff sock_ok_more)

lemma wire_inv_teardown:
  "wire_inv W t \<Longrightarrow>
     list_all (sock_ok W)
       (sockets (on_sock i (\<lambda>s. destroy (removeAllListeners (s\<lparr>timer := False\<rparr>))) t))"
  "wire_inv W t \<Longrightarrow> list_all (sock_ok W) (sockets (on_sock i (destroy \<circ> removeAllListeners) t))"
  by (auto simp: wire_inv_def on_sock_def
      intro!: list_all_update sock_ok_teardown list_all_sock_ok_nth)

lemma established_teardown:
  "j < length (sockets t) \<Longrightarrow>
     established
       (sockets (on_sock i (\<lambda>s. destroy (removeAllListeners (s\<lparr>timer := False\<rparr>))) t) ! j)
     = established (sockets t ! j)"
  by (cases "i = j") (simp_all add: on_sock_def destroy_def removeAllListeners_def)

lemma wire_inv_connect: "wire_inv W t \<Longrightarrow> wire_inv W (connect h p t)"
  using wire_inv_teardown(2)[of W t]
  by (auto simp: wire_inv_def connect_def Let_def on_sock_simps sock_ok_def new_Socket_def
      split: option.splits)

lemma wire_inv_write:
  assumes inv: "wire_inv W t"
  shows "wire_inv (W @ [m]) (write_io m b t)"
proof -
  have more: "list_all (sock_ok (W @ [m])) (sockets t)" "subseq (messageCache t) (W @ [m])"
    using inv by (auto simp: wire_inv_def list_all_sock_ok_more intro: subseq_order.trans)
  have push: "subseq (messageCache t @ [m]) (W @ [m])"
    using inv by (simp add: wire_inv_def list_emb_append_mono)
  show ?thesis
  proof (cases "socket t")
    case None
    with inv more push show ?thesis by (simp add: wire_inv_def write_io_def)
  next
    case (Some i)
    with inv have i: "i < length (sockets t)" "established (sockets t ! i)"
        "sock_ok W (sockets t ! i)"
      by (auto simp: wire_inv_def list_all_length)
    then have "sock_ok (W @ [m]) (sock_write m (sockets t ! i))"
      by (auto simp: sock_ok_def sock_write_def list_emb_append_mono intro: subseq_order.trans)
    with more have "list_all (sock_ok (W @ [m])) (sockets (on_sock i (sock_write m) t))"
      by (auto simp: on_sock_def intro!: list_all_update)
    moreover have "established (sockets (on_sock i (sock_write m) t) ! i)"
      using i by (simp add: on_sock_def sock_write_def)
    ultimately show ?thesis using Some inv more push i
      by (simp add: wire_inv_def write_io_def Let_def on_sock_simps)
  qed
qed

lemma wire_inv_on_connect:
  assumes "wire_inv W t" "can_connect i t"
  shows "wire_inv W (fst (on_connect i t))"
proof -
  from assms have i: "i < length (sockets t)" "\<not> established (sockets t ! i)"
      "\<not> destroyed (sockets t ! i)" "sock_ok W (sockets t ! i)"
    by (auto simp: can_connect_def attached_def wire_inv_def list_all_length)
  then have w: "wire (sockets t ! i) = []" by (simp add: sock_ok_def)
  have "sock_ok W (flush (messageCache t) ((sockets t ! i)\<lparr>timer := False, established := True\<rparr>))"
    using assms(1) i w by (simp add: sock_ok_def flush_wire flush_fields wire_inv_def)
  with assms(1) have "list_all (sock_ok W)
      (sockets (on_sock i (\<lambda>s. flush (messageCache t) (s\<lparr>timer := False, established := True\<rparr>)) t))"
    by (auto simp: on_sock_def wire_inv_def intro!: list_all_update)
  then show ?thesis using i
    by (simp add: wire_inv_def on_connect_def on_sock_simps) (simp add: on_sock_def flush_fields)
qed

lemma wire_inv_on_error:
  assumes "wire_inv W t"
  shows "wire_inv W (fst (on_error i t))" "wire_inv W (fst (on_close i t))"
    "wire_inv W (fst (on_connection_timeout i t))"
  using assms wire_inv_teardown(1)[OF assms, of i]
  by (auto simp: wire_inv_def on_error_def on_close_def on_connection_timeout_def Let_def
      on_sock_simps established_teardown split: option.splits)

lemma wire_inv_step: "wire_inv W t \<Longrightarrow> wire_inv (W @ writes_of [e]) (fst (io_step e t))"
proof (cases e)
  case (Connect h p)
  then show "wire_inv W t \<Longrightarrow> ?thesis" by (simp add: wire_inv_connect)
next
  case (Write m b)
  then show "wire_inv W t \<Longrightarrow> ?thesis" by (simp add: wire_inv_write)
next
  case (SockDrain i)
  then show "wire_inv W t \<Longrightarrow> ?thesis"
    by (auto simp: on_drain_def wire_inv_def split: option.splits)
qed (simp_all add: wire_inv_on_connect wire_inv_on_error on_data_def)

lemma writes_of_append: "writes_of (es @ es') = writes_of es @ writes_of es'"
  by (induction es rule: writes_of.induct) simp_all

lemma wire_inv_run: "wire_inv W t \<Longrightarrow> wire_inv (W @ writes_of es) (io_run es t)"
proof (induction es arbitrary: W t)
  case Nil
  then show ?case by simp
next
  case (Cons e es)
  from Cons.IH[OF wire_inv_step[OF Cons.prems, of e]] show ?case
    using writes_of_append[of "[e]" es] by simp
qed

lemma wire_inv_new: "wire_inv [] new_MessageIO"
  by (simp add: wire_inv_def new_MessageIO_def)

text \<open>What does hold of the order, over every sequence of calls of \<open>connect\<close> and
  \<open>write\<close>, drain events, connect completions, errors, closes and timeouts on a fresh
  \<open>MessageIO\<close>: the frames handed to each socket are, in their order on that socket, a
  subsequence of the frames in the order of the \<open>write\<close> calls, and so are the frames
  waiting in the cache. A subsequence may leave frames out: it does not say that a queued
  frame is written before the frames of later calls.\<close>

lemma wire_is_subsequence_of_writes:
  "list_all (\<lambda>s. subseq (wire s) (writes_of es)) (sockets (io_run es new_MessageIO))
   \<and> subseq (messageCache (io_run es new_MessageIO)) (writes_of es)"
  using wire_inv_run[OF wire_inv_new, of es]
  by (simp add: wire_inv_def list_all_iff sock_ok_def)

text \<open>
  C6 (fails on the code). The claim: the frames reach the socket in the order of the
  \<open>write\<close> calls, and a frame queued under backpressure or while disconnected is never
  overtaken on the wire by a frame of a later call. The frame \<open>a\<close> is written while the
  socket is connecting and is flushed when it connects; \<open>b\<close> is written and the socket
  reports a full buffer; \<open>c\<close> is queued; the socket drains, which only clears the flag;
  \<open>d\<close> is written to the socket at once. The socket has received \<open>a\<close>, \<open>b\<close>, \<open>d\<close>
  while \<open>c\<close>, from an earlier call than \<open>d\<close>, still waits in the cache. No later drain or
  write flushes the cache; when the socket closes and \<open>connect\<close> is called again the cache
  is cleared, and \<open>c\<close> has reached no socket. With two sockets from overlapping calls of
  \<open>connect\<close>, the queued \<open>c\<close> is flushed to the second socket when that one connects,
  after the later \<open>d\<close> has gone to the first.
\<close>

theorem later_frame_written_before_queued_frame:
  "writes_of [Connect ''127.0.0.1'' 6005, Write ''a'' True, SockConnect 0, Write ''b'' False,
       Write ''c'' True, SockDrain 0, Write ''d'' True] = [''a'', ''b'', ''c'', ''d'']
   \<and> map wire (sockets (io_run [Connect ''127.0.0.1'' 6005, Write ''a'' True, SockConnect 0,
          Write ''b'' False, Write ''c'' True, SockDrain 0, Write ''d'' True] new_MessageIO))
       = [[''a'', ''b'', ''d'']]
   \<and> messageCache (io_run [Connect ''127.0.0.1'' 6005, Write ''a'' True, SockConnect 0,
          Write ''b'' False, Write ''c'' True, SockDrain 0, Write ''d'' True] new_MessageIO)
       = [''c'']
   \<and> map wire (sockets (io_run [Connect ''127.0.0.1'' 6005, Write ''a'' True, SockConnect 0,
          Write ''b'' False, Write ''c'' True, SockDrain 0, Write ''d'' True, SockDrain 0,
          SockClose 0, Connect ''127.0.0.1'' 6005, SockConnect 1] new_MessageIO))
       = [[''a'', ''b'', ''d''], []]
   \<and> messageCache (io_run [Connect ''127.0.0.1'' 6005, Write ''a'' True, SockConnect 0,
          Write ''b'' False, Write ''c'' True, SockDrain 0, Write ''d'' True, SockDrain 0,
          SockClose 0, Connect ''127.0.0.1'' 6005, SockConnect 1] new_MessageIO)
       = []
   \<and> map wire (sockets (io_run [Connect ''127.0.0.1'' 6005, Connect ''127.0.0.1'' 6008,
          SockConnect 0, Write ''b'' False, Write ''c'' True, SockDrain 0, Write ''d'' True,
          SockConnect 1] new_MessageIO))
       = [[''b'', ''d''], [''c'']]"
  by code_simp

section \<open>The states of the examples\<close>

text \<open>The definitions that the values of the examples unfold.\<close>

lemmas client_defs = client_connect_def set_status_def new_GDScriptLanguageClient_def
  new_MessageIO_def connect_def new_Socket_def client_io_event_def attached_def can_connect_def
  on_connect_def on_sock_def on_connected_def on_disconnected_def on_close_def on_error_def
  destroy_def removeAllListeners_def

lemmas manager_defs = manager_io_event_def manager_client_event_def on_client_status_changed_def
  suspend_def settle_def suspended_in_def declare_connected_def write_log_def
  capabilities_resolved_def initialization_failed_def waitForCapabilities_def start_settled_def
  onCapabilitiesReceived_def dispose_settled_def create_new_client_def retry_callback_def
  retry_connect_client_def

lemma first_attempt_value:
  "first_attempt =
     \<lparr> client =
         \<lparr> io = \<lparr> sockets = [\<lparr> peer = (''127.0.0.1'', 6005), listeners = True, destroyed = False,
                    established = False, timer = True, wire = [] \<rparr>],
                 socket = None, messageCache = [], draining = False,
                 requestFilter = Client_filter, responseFilter = Client_filter,
                 notificationFilter = Client_filter \<rparr>,
           target = EDITOR, port = - 1, lastPortTried = 6005, sentMessages = [],
           rejected = False, client_status = ClientStatus.PENDING, io_subscribed = True,
           status_listeners = True \<rparr>,
       capabilitiesReceived = False, capabilitiesResolver = None, reconnectionAttempts = 0,
       mgr_target = EDITOR, status = ManagerStatus.PENDING, retry = False,
       connectedToLSP = False, logged = [], handlers = [] \<rparr>"
  by (simp add: first_attempt_def connect_to_language_server_def sample_config_def
      sample_handshake_def new_ClientConnectionManager_def Let_def client_defs manager_defs)

lemma handshaking_manager_value:
  "handshaking_manager =
     \<lparr> client =
         \<lparr> io = \<lparr> sockets = [\<lparr> peer = (''127.0.0.1'', 6005), listeners = True, destroyed = False,
                    established = True, timer = False, wire = [] \<rparr>],
                 socket = Some 0, messageCache = [], draining = False,
                 requestFilter = Client_filter, responseFilter = Client_filter,
                 notificationFilter = Client_filter \<rparr>,
           target = EDITOR, port = - 1, lastPortTried = 6005, sentMessages = [],
           rejected = False, client_status = ClientStatus.CONNECTED, io_subscribed = True,
           status_listeners = True \<rparr>,
       capabilitiesReceived = False, capabilitiesResolver = None, reconnectionAttempts = 0,
       mgr_target = EDITOR, status = INITIALIZING_CLIENT, retry = False,
       connectedToLSP = False, logged = [], handlers = [Await_start] \<rparr>"
  by (simp add: handshaking_manager_def first_attempt_value sample_handshake_def Let_def
      client_defs manager_defs)


lemma refused_manager_value:
  "refused_manager =
     \<lparr> client = new_GDScriptLanguageClient\<lparr>port := - 1, status_listeners := True\<rparr>,
       capabilitiesReceived = False, capabilitiesResolver = None, reconnectionAttempts = 0,
       mgr_target = EDITOR, status = ManagerStatus.DISCONNECTED, retry = True,
       connectedToLSP = False, logged = [], handlers = [Finished] \<rparr>"
  by (simp add: refused_manager_def refused_def first_attempt_value latest_socket_def Let_def
      disposeClient_def client_defs manager_defs)

lemma retrying_manager_value:
  "retrying_manager =
     \<lparr> client =
         \<lparr> io = \<lparr> sockets = [\<lparr> peer = (''127.0.0.1'', 6005), listeners = True, destroyed = False,
                    established = False, timer = True, wire = [] \<rparr>],
                 socket = None, messageCache = [], draining = False,
                 requestFilter = Client_filter, responseFilter = Client_filter,
                 notificationFilter = Client_filter \<rparr>,
           target = EDITOR, port = - 1, lastPortTried = 6005, sentMessages = [],
           rejected = False, client_status = ClientStatus.PENDING, io_subscribed = True,
           status_listeners = True \<rparr>,
       capabilitiesReceived = False, capabilitiesResolver = None, reconnectionAttempts = 1,
       mgr_target = EDITOR, status = ManagerStatus.PENDING, retry = True,
       connectedToLSP = False, logged = [], handlers = [Finished] \<rparr>"
  by (simp add: retrying_manager_def refused_manager_value sample_config_def
      sample_handshake_def Let_def client_defs manager_defs)

lemma waiting_manager_value:
  "waiting_manager =
     \<lparr> client =
         \<lparr> io = \<lparr> sockets = [\<lparr> peer = (''127.0.0.1'', 6005), listeners = True, destroyed = False,
                    established = True, timer = False, wire = [] \<rparr>],
                 socket = Some 0, messageCache = [], draining = False,
                 requestFilter = Client_filter, responseFilter = Client_filter,
                 notificationFilter = Client_filter \<rparr>,
           target = EDITOR, port = - 1, lastPortTried = 6005, sentMessages = [],
           rejected = False, client_status = ClientStatus.CONNECTED, io_subscribed = True,
           status_listeners = True \<rparr>,
       capabilitiesReceived = False, capabilitiesResolver = Some 1, reconnectionAttempts = 1,
       mgr_target = EDITOR, status = INITIALIZING_CLIENT, retry = True,
       connectedToLSP = False,
       logged = [(Info, ''LSP Client started, waiting for capabilities...'')],
       handlers = [Finished, Await_capabilities 30000] \<rparr>"
  by (simp add: waiting_manager_def retrying_manager_value sample_handshake_def Let_def
      client_defs manager_defs)

lemma interrupted_manager_value:
  "interrupted_manager =
     \<lparr> client =
         \<lparr> io = \<lparr> sockets = [\<lparr> peer = (''127.0.0.1'', 6005), listeners = False, destroyed = True,
                    established = True, timer = False, wire = [] \<rparr>,
                  \<lparr> peer = (''127.0.0.1'', 6008), listeners = True, destroyed = False,
                    established = False, timer = True, wire = [] \<rparr>],
                 socket = None, messageCache = [], draining = False,
                 requestFilter = Client_filter, responseFilter = Client_filter,
                 notificationFilter = Client_filter \<rparr>,
           target = EDITOR, port = - 1, lastPortTried = 6008, sentMessages = [],
           rejected = False, client_status = ClientStatus.PENDING, io_subscribed = True,
           status_listeners = True \<rparr>,
       capabilitiesReceived = False, capabilitiesResolver = Some 1, reconnectionAttempts = 2,
       mgr_target = EDITOR, status = ManagerStatus.PENDING, retry = True,
       connectedToLSP = False,
       logged = [(Info, ''LSP Client started, waiting for capabilities...'')],
       handlers = [Finished, Await_capabilities 30000] \<rparr>"
  by (simp add: interrupted_manager_def waiting_manager_value sample_config_def
      sample_handshake_def Let_def client_defs manager_defs)

lemma early_rejected_manager_value:
  "early_rejected_manager =
     \<lparr> client =
         \<lparr> io = \<lparr> sockets = [\<lparr> peer = (''127.0.0.1'', 6005), listeners = False, destroyed = True,
                    established = True, timer = False, wire = [] \<rparr>],
                 socket = None, messageCache = [], draining = False,
                 requestFilter = Client_filter, responseFilter = Client_filter,
                 notificationFilter = Client_filter \<rparr>,
           target = EDITOR, port = - 1, lastPortTried = 6005, sentMessages = [],
           rejected = True, client_status = ClientStatus.REJECTED, io_subscribed = True,
           status_listeners = True \<rparr>,
       capabilitiesReceived = False, capabilitiesResolver = None, reconnectionAttempts = 0,
       mgr_target = EDITOR, status = WRONG_WORKSPACE, retry = False,
       connectedToLSP = False, logged = [], handlers = [Await_start] \<rparr>"
  by (simp add: early_rejected_manager_def handshaking_manager_value manager_check_workspace_def
      check_workspace_def workspace_notification_def sample_externals_def resetAndDestroy_def
      Let_def client_defs manager_defs)

section \<open>Client: the pending-request table and the request filter\<close>

























text \<open>
  C5 (fails on the code). The claim: a request for which the request filter answers
  \<open>false\<close> is never written and has no entry in \<open>sentMessages\<close> afterwards. The filter
  stores the entry before it looks at the methods it discards: for a
  \<open>workspace/symbol\<close> request on a client that is not rejected it answers \<open>false\<close>,
  the writer writes nothing, and the entry of the request is in the table.
\<close>

theorem discarded_request_is_recorded:
  "request_filter now symbol_request new_GDScriptLanguageClient
     = (new_GDScriptLanguageClient
          \<lparr>sentMessages := [(Some (IdNum 1), message.extend symbol_request \<lparr>timestamp = now\<rparr>)]\<rparr>,
        None)
   \<and> pending (Some (IdNum 1))
        (writer_write ext now canContinue symbol_request new_GDScriptLanguageClient)
   \<and> io (writer_write ext now canContinue symbol_request new_GDScriptLanguageClient)
        = io new_GDScriptLanguageClient"
  by (simp add: request_filter_def writer_write_def io_requestFilter_def
      new_GDScriptLanguageClient_def new_MessageIO_def pending_def symbol_request_def)

text \<open>What does hold for every discarded message: the writer hands nothing to
  \<open>MessageIO.write\<close>.\<close>

lemma discarded_request_is_not_written:
  assumes "snd (io_requestFilter now msg c) = None"
  shows "io (writer_write ext now canContinue msg c) = io c"
  using assms
  by (auto simp: writer_write_def io_requestFilter_def request_filter_def Let_def
      split: filter_slot.splits if_splits prod.splits)

text \<open>
  C10. While the flag \<open>rejected\<close> of a client is set, its request filter answers
  \<open>false\<close> for every message whose method is not \<open>"shutdown"\<close> and hands a
  \<open>"shutdown"\<close> message back as it is, and it leaves the client, and so the table
  \<open>sentMessages\<close>, unchanged. With the filter bound to the \<open>MessageIO\<close>, the writer then
  leaves the client untouched for a discarded message (nothing is written or queued) and
  passes the frame of a \<open>"shutdown"\<close> message to \<open>MessageIO.write\<close>.
\<close>

theorem rejected_client_forwards_only_shutdown:
  assumes "rejected c"
  shows "request_filter now msg c = (c, if method msg = Some ''shutdown'' then Some msg else None)
     \<and> (requestFilter (io c) = Client_filter \<longrightarrow>
          writer_write ext now canContinue msg c =
            (if method msg = Some ''shutdown''
             then c\<lparr>io := write_io (frame_of (stringify ext msg)) canContinue (io c)\<rparr>
             else c))"
  using assms by (simp add: request_filter_def writer_write_def io_requestFilter_def)

theorem rejected_client_forwards_only_shutdown_witness:
  "rejected (new_GDScriptLanguageClient\<lparr>rejected := True\<rparr>)
   \<and> request_filter 5 hover_request (new_GDScriptLanguageClient\<lparr>rejected := True\<rparr>)
       = (new_GDScriptLanguageClient\<lparr>rejected := True\<rparr>, None)
   \<and> writer_write sample_externals 5 True hover_request (new_GDScriptLanguageClient\<lparr>rejected := True\<rparr>)
       = new_GDScriptLanguageClient\<lparr>rejected := True\<rparr>"
proof -
  have r: "rejected (new_GDScriptLanguageClient\<lparr>rejected := True\<rparr>)" by simp
  have b: "requestFilter (io (new_GDScriptLanguageClient\<lparr>rejected := True\<rparr>)) = Client_filter"
    by (simp add: new_GDScriptLanguageClient_def)
  have m: "method hover_request \<noteq> Some ''shutdown''" by (simp add: hover_request_def)
  from rejected_client_forwards_only_shutdown[OF r, of 5 hover_request sample_externals True] b m r
  show ?thesis by simp
qed

text \<open>
  C4 (fails on the code). The claim: when the underlying call rejects, \<open>send_request\<close>
  logs a warning and its caller gets no result instead of the fault. The \<open>try\<close> block
  returns the promise of \<open>sendRequest\<close> without awaiting it, so its \<open>catch\<close> never
  sees a rejection: the promise of \<open>send_request\<close> is rejected with the same error, and
  nothing is logged.
\<close>

theorem send_request_propagates_rejection:
  "send_request (\<lambda>meth params. Inr (Rejected e)) meth params = (Rejected e, [])"
  by (simp add: send_request_def)

text \<open>What the \<open>catch\<close> does catch is an exception thrown while \<open>sendRequest\<close> is
  called.\<close>

lemma send_request_catches_throw:
  "send_request (\<lambda>meth params. Inl e) meth params
     = (Fulfilled None, [(Warn, ''sending request failed!'')])"
  by (simp add: send_request_def)

text \<open>
  C7 (fails on the code). The claim: decoded messages reach the callback in arrival
  order, also when the response filter does asynchronous work. The response to a
  document-link request arrives, and its invocation of \<open>processMessages\<close> is suspended in
  the response filter, which resolves the \<open>uid://\<close> targets; a notification arrives in
  the next chunk, and the invocation started for that chunk hands it to the callback at once;
  the response follows when its filter has settled. The callback gets the notification
  first, the response second.
\<close>

theorem later_notification_delivered_first:
  "delivered (reader_run (\<lambda>json. True)
      [Chunk [link_response], Chunk [diagnostics_notification], FilterSettled 0 True] new_reader)
     = [diagnostics_notification, link_response]
   \<and> arrived [Chunk [link_response], Chunk [diagnostics_notification], FilterSettled 0 True]
     = [link_response, diagnostics_notification]"
  by (simp add: new_reader_def reader_on_data_def processMessages_def buffer_append_def resume_def
      link_response_def diagnostics_notification_def)

text \<open>When every response filter settles before the next chunk arrives, the callback
  gets the messages in arrival order.\<close>

lemma subseq_drop_middle: "subseq (xs @ y # ys) A \<Longrightarrow> subseq (xs @ ys) A"
proof -
  assume a: "subseq (xs @ y # ys) A"
  have "subseq ys ys" by (rule subseq_order.refl)
  then have "subseq ys (y # ys)" by (rule list_emb_Cons)
  then have "subseq (xs @ ys) (xs @ y # ys)"
    by (simp only: subseq_append')
  then show ?thesis using a by (rule subseq_order.trans)
qed

lemma process_inv:
  "subseq (del @ buf) A \<Longrightarrow> reader_inv A (process nf buf [] del)"
proof (induction buf arbitrary: del)
  case Nil
  then show ?case by (simp add: reader_inv_def)
next
  case (Cons json rest)
  have next_one: "reader_inv A (process nf rest [] (del @ [json]))"
    using Cons.prems by (intro Cons.IH) simp
  have dropped: "subseq (del @ rest) A"
    using Cons.prems by (rule subseq_drop_middle)
  show ?case using Cons.prems next_one dropped by (simp add: reader_inv_def)
qed

lemma reader_inv_chunk:
  assumes "reader_inv A r" "awaiting r = []"
  shows "reader_inv (A @ completed) (reader_on_data nf completed r)"
proof -
  have "subseq (delivered r @ buffer r @ completed) (A @ completed)"
    using assms list_emb_append_mono[of "(=)" "delivered r @ buffer r" A completed completed]
    by (simp add: reader_inv_def)
  then show ?thesis using assms(2)
    by (simp add: reader_on_data_def processMessages_def buffer_append_def process_inv)
qed

lemma reader_inv_resume:
  assumes "reader_inv A r"
  shows "reader_inv A (resume nf k forwarded r)"
proof (cases "k < length (awaiting r)")
  case False
  with assms show ?thesis by (simp add: resume_def)
next
  case True
  with assms obtain json where aw: "awaiting r = [json]" "k = 0"
    by (cases "awaiting r") (auto simp: reader_inv_def)
  have full: "subseq (delivered r @ json # buffer r) A"
    using assms aw by (simp add: reader_inv_def)
  show ?thesis
  proof (cases forwarded)
    case True
    have "reader_inv A (process nf (buffer r) [] (delivered r @ [json]))"
      using full by (intro process_inv) simp
    with aw True show ?thesis by (simp add: resume_def processMessages_def)
  next
    case False
    with aw subseq_drop_middle[OF full] show ?thesis by (simp add: resume_def reader_inv_def)
  qed
qed

lemma arrived_Cons: "arrived (e # es) = arrived [e] @ arrived es"
  by (cases e) simp_all

lemma reader_inv_run:
  "reader_inv A r \<Longrightarrow> one_at_a_time nf es r \<Longrightarrow> reader_inv (A @ arrived es) (reader_run nf es r)"
proof (induction es arbitrary: A r)
  case Nil
  then show ?case by simp
next
  case (Cons e es)
  show ?case
  proof (cases e)
    case (Chunk completed)
    with Cons.prems have "reader_inv (A @ completed) (reader_on_data nf completed r)"
        "one_at_a_time nf es (reader_on_data nf completed r)"
      by (simp_all add: reader_inv_chunk)
    from Cons.IH[OF this] Chunk show ?thesis by simp
  next
    case (FilterSettled k forwarded)
    with Cons.prems have "reader_inv A (resume nf k forwarded r)"
        "one_at_a_time nf es (resume nf k forwarded r)"
      by (simp_all add: reader_inv_resume)
    from Cons.IH[OF this] FilterSettled show ?thesis by simp
  qed
qed

lemma arrival_order_when_filters_settle_first:
  assumes "one_at_a_time nf es new_reader"
  shows "subseq (delivered (reader_run nf es new_reader)) (arrived es)"
proof -
  have "reader_inv [] new_reader" by (simp add: reader_inv_def new_reader_def)
  from reader_inv_run[OF this assms] have "reader_inv (arrived es) (reader_run nf es new_reader)"
    by simp
  then have "subseq (delivered (reader_run nf es new_reader)
      @ (awaiting (reader_run nf es new_reader) @ buffer (reader_run nf es new_reader))) (arrived es)"
    by (simp add: reader_inv_def)
  moreover have "subseq (delivered (reader_run nf es new_reader))
      (delivered (reader_run nf es new_reader)
        @ (awaiting (reader_run nf es new_reader) @ buffer (reader_run nf es new_reader)))"
    by (rule list_emb_prefix) (rule subseq_order.refl)
  ultimately show ?thesis by (rule subseq_order.trans[rotated])
qed

section \<open>Manager: retries, rejection and the capability handshake\<close>

text \<open>An invocation of the \<open>DISCONNECTED\<close> case whose disposal settles before anything
  else happens.\<close>

lemma handlers_suspend: "handlers (suspend h m) = handlers m @ [h]"
  by (simp add: suspend_def)

lemma suspend_then_dispose:
  "k = length (handlers m) \<Longrightarrow>
   dispose_settled k (suspend (Await_dispose p) m)
     = m\<lparr>handlers := handlers m @ [Finished],
         client := new_GDScriptLanguageClient\<lparr>port := p, status_listeners := True\<rparr>,
         capabilitiesReceived := False, capabilitiesResolver := None,
         status := (if retry m then (if p \<noteq> - 1 then INITIALIZING_LSP else RETRYING)
                    else ManagerStatus.DISCONNECTED),
         retry := True\<rparr>"
  by (simp add: dispose_settled_def suspend_def settle_def create_new_client_def Let_def)

lemma refused_value:
  assumes "client_io_event (SockError (latest_socket (client m))) (client m)
             = (c1, [ClientStatus.DISCONNECTED])"
  shows "refused hs m
     = m\<lparr>connectedToLSP := False, handlers := handlers m @ [Finished],
         client := new_GDScriptLanguageClient\<lparr>port := port c1, status_listeners := True\<rparr>,
         capabilitiesReceived := False, capabilitiesResolver := None,
         status := (if retry m then (if port c1 \<noteq> - 1 then INITIALIZING_LSP else RETRYING)
                    else ManagerStatus.DISCONNECTED),
         retry := True\<rparr>"
  using assms
  by (simp add: refused_def manager_io_event_def on_client_status_changed_def Let_def
      suspend_then_dispose handlers_suspend)

lemma new_client_connect:
  assumes "c = new_GDScriptLanguageClient\<lparr>port := - 1, status_listeners := True\<rparr>"
    and "serverPort cfg = 6005 \<or> serverPort cfg = 6008"
    and "client_connect cfg EDITOR alt c = (c1, tried, sts)"
  shows "tried = 6005 \<and> sts = [ClientStatus.PENDING]
     \<and> (\<exists>c2. client_io_event (SockError (latest_socket c1)) c1 = (c2, [ClientStatus.DISCONNECTED])
            \<and> port c2 = - 1)"
  using assms
  by (auto simp: client_connect_def set_status_def new_GDScriptLanguageClient_def
      new_MessageIO_def connect_def new_Socket_def latest_socket_def Let_def
      client_io_event_def attached_def on_error_def on_sock_def on_disconnected_def)

lemma failed_retry_round:
  assumes "retry_ready m" "autoReconnect_enabled cfg"
    and "serverPort cfg = 6005 \<or> serverPort cfg = 6008"
    and "reconnectionAttempts m + 1 \<le> autoReconnect_attempts cfg"
  shows "\<exists>m1. retry_callback cfg hs m = (m1, Some 6005)
      \<and> retry_ready (refused hs m1)
      \<and> reconnectionAttempts (refused hs m1) = reconnectionAttempts m + 1"
proof -
  let ?m0 = "m\<lparr>reconnectionAttempts := reconnectionAttempts m + 1\<rparr>"
  let ?alt = "(reconnectionAttempts m + 1) mod 2 = 0"
  obtain c1 tried sts where cc: "client_connect cfg EDITOR ?alt (client m) = (c1, tried, sts)"
    by (cases "client_connect cfg EDITOR ?alt (client m)") auto
  from assms(1) have c: "client m = new_GDScriptLanguageClient\<lparr>port := - 1, status_listeners := True\<rparr>"
    and tg: "mgr_target m = EDITOR" and rt: "retry m"
    by (simp_all add: retry_ready_def)
  from new_client_connect[OF c assms(3) cc] obtain c2 where
    tried: "tried = 6005" and sts: "sts = [ClientStatus.PENDING]"
    and err: "client_io_event (SockError (latest_socket c1)) c1 = (c2, [ClientStatus.DISCONNECTED])"
    and p2: "port c2 = - 1"
    by blast
  let ?m1 = "?m0\<lparr>client := c1, status := ManagerStatus.PENDING, retry := True\<rparr>"
  have cb: "retry_callback cfg hs m = (?m1, Some 6005)"
    using rt assms(2,4) tg cc tried sts
    by (simp add: retry_callback_def retry_connect_client_def Let_def
        on_client_status_changed_def)
  have err1: "client_io_event (SockError (latest_socket (client ?m1))) (client ?m1)
      = (c2, [ClientStatus.DISCONNECTED])"
    using err by simp
  show ?thesis
    using cb p2 tg by (simp add: refused_value[OF err1] retry_ready_def)
qed

text \<open>After a failure the manager replaces the client, and the new client has not tried
  any port: whatever the parity of the attempt counter, every attempt of a run of failed
  attempts goes to port 6005, for a configured port of 6005 or of 6008.\<close>

lemma failed_retries_all_6005:
  assumes "retry_ready m" "autoReconnect_enabled cfg"
    and "serverPort cfg = 6005 \<or> serverPort cfg = 6008"
    and "reconnectionAttempts m + int n \<le> autoReconnect_attempts cfg"
  shows "failed_retries cfg hs n m = replicate n 6005"
  using assms
proof (induction n arbitrary: m)
  case 0
  then show ?case by simp
next
  case (Suc n)
  from Suc.prems have "reconnectionAttempts m + 1 \<le> autoReconnect_attempts cfg" by simp
  from failed_retry_round[OF Suc.prems(1,2,3) this, of hs]
  obtain m1 where m1: "retry_callback cfg hs m = (m1, Some 6005)"
      "retry_ready (refused hs m1)"
      "reconnectionAttempts (refused hs m1) = reconnectionAttempts m + 1"
    by blast
  have "failed_retries cfg hs n (refused hs m1) = replicate n 6005"
    using Suc.prems m1 by (intro Suc.IH) simp_all
  with m1(1) show ?case by simp
qed

text \<open>
  C3 (fails on the code). The claim: over consecutive failed reconnect attempts at the
  editor with a configured port of 6005 or 6008 the ports tried alternate between the two.
  The manager, configured for port 6005 (or 6008), has had its first connection refused;
  the retry timer then makes four attempts, each refused in turn. All four go to port 6005:
  \<open>lastPortTried\<close> belongs to the client, and the client is replaced after every failure.
\<close>

theorem failed_retries_never_alternate:
  "failed_retries sample_config sample_handshake 4 refused_manager = [6005, 6005, 6005, 6005]
   \<and> failed_retries (sample_config\<lparr>serverPort := 6008\<rparr>) sample_handshake 4 refused_manager
       = [6005, 6005, 6005, 6005]"
proof -
  have ready: "retry_ready refused_manager"
    by (simp add: refused_manager_value retry_ready_def)
  have four: "replicate 4 (6005 :: int) = [6005, 6005, 6005, 6005]"
    by (simp add: numeral_eq_Suc)
  have "failed_retries sample_config sample_handshake 4 refused_manager = replicate 4 6005"
    by (rule failed_retries_all_6005[OF ready])
       (simp_all add: sample_config_def refused_manager_value)
  moreover
  have "failed_retries (sample_config\<lparr>serverPort := 6008\<rparr>) sample_handshake 4 refused_manager
      = replicate 4 6005"
    by (rule failed_retries_all_6005[OF ready])
       (simp_all add: sample_config_def refused_manager_value)
  ultimately show ?thesis by (simp only: four)
qed

lemma decimal_30000: "decimal 30000 = ''30000''"
  by (simp add: decimal.simps[of 30000] decimal.simps[of 3000] decimal.simps[of 300]
      decimal.simps[of 30] decimal.simps[of 3] digit_char_def)

text \<open>The events of the manager seen from one invocation of the \<open>CONNECTED\<close> case:
  whatever else happens, the invocation stays in its handshake, and its wait for the
  capabilities has the timer of 30 s.\<close>

lemma in_handshake_status:
  "in_handshake k m \<Longrightarrow> in_handshake k (on_client_status_changed hs st m)"
  by (cases st)
     (auto simp: in_handshake_def on_client_status_changed_def suspend_def declare_connected_def
        Let_def nth_append)

lemma in_handshake_notify: "in_handshake k m \<Longrightarrow> in_handshake k (notify hs sts m)"
  by (induction sts arbitrary: m) (simp_all add: in_handshake_status)

lemma in_handshake_settle: "in_handshake k m \<Longrightarrow> in_handshake k (settle j m)"
  by (cases "j = k") (auto simp: in_handshake_def settle_def)

lemma in_handshake_resolved:
  "in_handshake k m \<Longrightarrow> in_handshake k (capabilities_resolved j m)"
  using in_handshake_settle[of k m j]
  by (simp add: capabilities_resolved_def declare_connected_def write_log_def in_handshake_def)

lemma in_handshake_failed:
  "in_handshake k m \<Longrightarrow> in_handshake k (initialization_failed j err m)"
  using in_handshake_settle[of k m j]
  by (simp add: initialization_failed_def declare_connected_def write_log_def in_handshake_def)

lemma in_handshake_received:
  "in_handshake k m \<Longrightarrow> in_handshake k (onCapabilitiesReceived m)"
proof -
  assume a: "in_handshake k m"
  have b: "in_handshake k (m\<lparr>capabilitiesReceived := True, capabilitiesResolver := None\<rparr>)"
    using a by (simp add: in_handshake_def)
  have c: "in_handshake k (m\<lparr>capabilitiesReceived := True\<rparr>)"
    using a by (simp add: in_handshake_def)
  show ?thesis
    using b c in_handshake_resolved[OF b]
    by (simp add: onCapabilitiesReceived_def Let_def split: option.split handler_state.split)
qed

lemma in_handshake_start:
  "in_handshake k m \<Longrightarrow> in_handshake k (start_settled j outcome m)"
proof -
  assume a: "in_handshake k m"
  let ?m1 = "write_log Info ''LSP Client started, waiting for capabilities...'' m"
  have b: "in_handshake k ?m1"
    using a by (simp add: in_handshake_def write_log_def)
  have c: "in_handshake k (waitForCapabilities j 30000 ?m1)"
  proof (cases "capabilitiesReceived ?m1")
    case True
    then show ?thesis using in_handshake_resolved[OF b] by (simp add: waitForCapabilities_def)
  next
    case False
    then show ?thesis
      using b by (cases "j = k") (auto simp: waitForCapabilities_def in_handshake_def)
  qed
  show ?thesis
    using a c in_handshake_failed[OF a]
    by (simp add: start_settled_def split: option.split)
qed

lemma in_handshake_timeout:
  "in_handshake k m \<Longrightarrow> in_handshake k (capabilities_timeout j m)"
proof -
  assume a: "in_handshake k m"
  have b: "in_handshake k (m\<lparr>capabilitiesResolver := None\<rparr>)"
    using a by (simp add: in_handshake_def)
  show ?thesis
    using a in_handshake_failed[OF b]
    by (simp add: capabilities_timeout_def split: handler_state.split)
qed

lemma in_handshake_dispose:
  "in_handshake k m \<Longrightarrow> in_handshake k (dispose_settled j m)"
proof -
  assume a: "in_handshake k m"
  have "handlers (dispose_settled j m) = handlers m
      \<or> handlers (dispose_settled j m) = handlers (settle j m)"
    by (simp add: dispose_settled_def create_new_client_def Let_def split: handler_state.split)
  then show ?thesis
    using a in_handshake_settle[OF a, of j] by (auto simp: in_handshake_def)
qed

lemma in_handshake_tick:
  "in_handshake k m \<Longrightarrow> in_handshake k (fst (retry_callback cfg hs m))"
proof -
  assume a: "in_handshake k m"
  have "in_handshake k (notify hs sts (m\<lparr>reconnectionAttempts := n, client := c\<rparr>))" for sts n c
    using a by (intro in_handshake_notify) (simp add: in_handshake_def)
  then show ?thesis
    using a
    by (simp add: retry_callback_def retry_connect_client_def Let_def in_handshake_def
        split: prod.split)
qed

lemma in_handshake_client_event:
  "in_handshake k m \<Longrightarrow> in_handshake k (manager_client_event cfg ext hs e m)"
proof -
  assume a: "in_handshake k m"
  have "in_handshake k (notify hs sts (m\<lparr>client := c\<rparr>))" for sts c
    using a by (intro in_handshake_notify) (simp add: in_handshake_def)
  then show ?thesis
    by (simp add: manager_client_event_def Let_def in_handshake_received)
qed

lemma in_handshake_step:
  "in_handshake k m \<Longrightarrow> in_handshake k (manager_step cfg ext hs e m)"
  by (cases e)
     (simp_all add: in_handshake_tick in_handshake_client_event in_handshake_start
        in_handshake_timeout in_handshake_dispose)

lemma in_handshake_run:
  "in_handshake k m \<Longrightarrow> in_handshake k (manager_run cfg ext evs m)"
  by (induction evs arbitrary: m) (auto simp: in_handshake_step)

text \<open>The status \<open>CONNECTED\<close> of the client starts an invocation that awaits the start
  of the client.\<close>

lemma connected_starts_handshake:
  assumes "snd (client_io_event e (client m)) = [ClientStatus.CONNECTED]" "needsStart hs"
  shows "in_handshake (length (handlers m)) (manager_step cfg ext hs (Client (Socket e)) m)"
  using assms
  by (simp add: manager_client_event_def Let_def on_client_status_changed_def suspend_def
      in_handshake_def)

text \<open>The timer of a wait fires.\<close>

lemma capabilities_timeout_value:
  assumes "suspended_in k (Await_capabilities t) m"
  shows "capabilities_timeout k m
     = m\<lparr>capabilitiesResolver := None, handlers := (handlers m)[k := Finished],
         logged := logged m @ [(Warn, ''LSP initialization issue: LSP capabilities timeout after ''
                                       @ decimal t @ ''ms'')],
         retry := False, reconnectionAttempts := 0, connectedToLSP := True,
         status := ManagerStatus.CONNECTED\<rparr>"
  using assms
  by (simp add: capabilities_timeout_def suspended_in_def initialization_failed_def
      declare_connected_def write_log_def settle_def)

text \<open>
  C9. The client reports \<open>CONNECTED\<close> (the event \<open>e\<close> of its socket makes it emit that
  status) and needs a start, so the status handler starts the handshake; whatever happens
  then (ticks of the retry timer, events of the client, other invocations of the handler),
  if this invocation is still waiting for the capabilities when the timer of its wait
  fires, then that timer is the one of 30 s, and the handler goes on to set the manager's
  status to \<open>CONNECTED\<close>, the reconnection counter to zero and the retry flag to false, and
  to log the warning of the timeout; it leaves the client as it is, and the retry timer
  that ticks next makes no connection attempt.
\<close>

theorem capability_timeout_still_connected:
  assumes connected: "snd (client_io_event e (client m)) = [ClientStatus.CONNECTED]"
    and start: "needsStart hs"
    and run: "m' = manager_run cfg ext evs (manager_step cfg ext hs (Client (Socket e)) m)"
    and waiting: "suspended_in (length (handlers m)) (Await_capabilities t) m'"
  shows "t = 30000
     \<and> status (capabilities_timeout (length (handlers m)) m') = ManagerStatus.CONNECTED
     \<and> reconnectionAttempts (capabilities_timeout (length (handlers m)) m') = 0
     \<and> \<not> retry (capabilities_timeout (length (handlers m)) m')
     \<and> connectedToLSP (capabilities_timeout (length (handlers m)) m')
     \<and> logged (capabilities_timeout (length (handlers m)) m')
         = logged m' @ [(Warn, ''LSP initialization issue: LSP capabilities timeout after 30000ms'')]
     \<and> client (capabilities_timeout (length (handlers m)) m') = client m'
     \<and> retry_callback cfg hs (capabilities_timeout (length (handlers m)) m')
         = (capabilities_timeout (length (handlers m)) m', None)"
proof -
  have "in_handshake (length (handlers m)) m'"
    unfolding run using connected start
    by (intro in_handshake_run connected_starts_handshake)
  with waiting have t: "t = 30000"
    by (auto simp: in_handshake_def suspended_in_def)
  show ?thesis
    unfolding capabilities_timeout_value[OF waiting]
    by (simp add: t decimal_30000 retry_callback_def)
qed

theorem capability_timeout_still_connected_witness:
  "retry interrupted_manager \<and> reconnectionAttempts interrupted_manager = 2
   \<and> status interrupted_manager = ManagerStatus.PENDING
   \<and> status (capabilities_timeout 1 interrupted_manager) = ManagerStatus.CONNECTED
   \<and> reconnectionAttempts (capabilities_timeout 1 interrupted_manager) = 0
   \<and> \<not> retry (capabilities_timeout 1 interrupted_manager)
   \<and> logged (capabilities_timeout 1 interrupted_manager)
       = [(Info, ''LSP Client started, waiting for capabilities...''),
          (Warn, ''LSP initialization issue: LSP capabilities timeout after 30000ms'')]
   \<and> client (capabilities_timeout 1 interrupted_manager) = client interrupted_manager
   \<and> retry_callback sample_config sample_handshake (capabilities_timeout 1 interrupted_manager)
       = (capabilities_timeout 1 interrupted_manager, None)"
proof -
  have connected: "snd (client_io_event (SockConnect 0) (client retrying_manager))
      = [ClientStatus.CONNECTED]"
    by (simp add: retrying_manager_value client_defs)
  have start: "needsStart sample_handshake"
    by (simp add: sample_handshake_def)
  have run: "interrupted_manager
      = manager_run sample_config sample_externals
          [(sample_handshake, Start_settled 1 None), (sample_handshake, Tick)]
          (manager_step sample_config sample_externals sample_handshake
             (Client (Socket (SockConnect 0))) retrying_manager)"
    by (simp add: interrupted_manager_def waiting_manager_def)
  have k: "length (handlers retrying_manager) = 1"
    by (simp add: retrying_manager_value)
  have waiting: "suspended_in (length (handlers retrying_manager)) (Await_capabilities 30000)
      interrupted_manager"
    by (simp add: k suspended_in_def interrupted_manager_value)
  have before: "retry interrupted_manager" "reconnectionAttempts interrupted_manager = 2"
    "status interrupted_manager = ManagerStatus.PENDING"
    "logged interrupted_manager = [(Info, ''LSP Client started, waiting for capabilities...'')]"
    by (simp_all add: interrupted_manager_value)
  from capability_timeout_still_connected[OF connected start run waiting] before k
  show ?thesis by simp
qed

text \<open>The retry flag is cleared only at the end of the handshake. A connection made by a
  reconnect attempt has the flag set, so a tick of the retry timer during the handshake
  makes another connection attempt, at the other port, and \<open>connect\<close> destroys the
  connected socket; when the timer of the wait fires afterwards, the manager's status is
  \<open>CONNECTED\<close> while its client is connecting.\<close>

lemma retry_timer_ticks_during_handshake:
  "snd (retry_callback sample_config sample_handshake waiting_manager) = Some 6008
   \<and> socket (io (client waiting_manager)) = Some 0
   \<and> socket (io (client interrupted_manager)) = None
   \<and> destroyed (sockets (io (client interrupted_manager)) ! 0)
   \<and> status (capabilities_timeout 1 interrupted_manager) = ManagerStatus.CONNECTED
   \<and> client_status (client (capabilities_timeout 1 interrupted_manager)) = ClientStatus.PENDING"
  by (simp add: waiting_manager_value interrupted_manager_value sample_config_def
      sample_handshake_def Let_def client_defs manager_defs capabilities_timeout_def)

text \<open>The events of the client as steps of the manager.\<close>

lemma manager_step_socket:
  "manager_step cfg ext hs (Client (Socket e)) m = manager_io_event hs e m"
  by (simp add: manager_client_event_def manager_io_event_def Let_def split: prod.split)

lemma manager_step_check_workspace:
  "manager_step cfg ext hs (Client (CheckWorkspace msg dir)) m
     = manager_check_workspace cfg ext msg dir m"
  by (simp add: manager_client_event_def manager_check_workspace_def)

text \<open>While the retry flag is cleared, ticks of the retry timer and the handshakes of
  suspended invocations that come due leave it cleared and leave the client alone.\<close>

lemma retry_stays_cleared_step:
  assumes "\<not> retry m" "tick_or_handshake e"
  shows "\<not> retry (manager_step cfg ext hs e m) \<and> client (manager_step cfg ext hs e m) = client m"
proof (cases e)
  case Tick
  with assms show ?thesis by (simp add: retry_callback_def)
next
  case (Client ev)
  with assms show ?thesis by simp
next
  case (Start_settled k outcome)
  with assms show ?thesis
    by (simp add: start_settled_def initialization_failed_def waitForCapabilities_def
        capabilities_resolved_def declare_connected_def write_log_def settle_def
        split: option.split)
next
  case (Capabilities_timeout k)
  with assms show ?thesis
    by (simp add: capabilities_timeout_def initialization_failed_def declare_connected_def
        write_log_def settle_def split: handler_state.split)
next
  case (Dispose_settled k)
  with assms show ?thesis by simp
qed

lemma retry_stays_cleared:
  "\<not> retry m \<Longrightarrow> list_all tick_or_handshake (map snd evs)
     \<Longrightarrow> \<not> retry (manager_run cfg ext evs m) \<and> client (manager_run cfg ext evs m) = client m"
proof (induction evs arbitrary: m)
  case Nil
  then show ?case by simp
next
  case (Cons a es)
  obtain hs e where a: "a = (hs, e)" by (cases a)
  from Cons.prems retry_stays_cleared_step[of m e cfg ext hs]
  have s: "\<not> retry (manager_step cfg ext hs e m)" "client (manager_step cfg ext hs e m) = client m"
    by (simp_all add: a)
  from Cons.IH[OF s(1)] Cons.prems s(2) show ?case by (simp add: a)
qed

text \<open>
  C8. The client of the manager has an open socket with its handlers attached, the
  client's handlers and filters are in place, and a workspace-change notification comes in
  whose path, normalised, differs from the normalised project directory; the manager is in
  any state, with any invocations of its status handler suspended. Then the notification
  filter calls \<open>check_workspace\<close>, which (resuming in such a state) destroys the socket
  and sets \<open>rejected\<close>; and when the socket's \<open>"close"\<close> (or \<open>"error"\<close>) event follows,
  the client's status is \<open>REJECTED\<close>, the \<open>MessageIO\<close> has no socket and the socket no
  handlers, the manager's status is \<open>WRONG_WORKSPACE\<close>, its retry flag is cleared, and the
  retry timer that fires next does nothing. The \<open>REJECTED\<close> case suspends nothing; and over
  all later ticks of the retry timer and handshakes of suspended invocations coming due, the
  retry flag stays cleared and nothing touches the client.
\<close>

theorem workspace_mismatch_rejects:
  assumes kind: "method msg = Some ''gdscript_client/changeWorkspace''"
    and path: "params_path msg = Some server_dir"
    and differs: "normalize ext server_dir \<noteq> normalize ext client_dir"
    and bound: "notificationFilter (io (client m)) = Client_filter"
    and sock: "socket (io (client m)) = Some i" "attached i (io (client m))"
    and subscribed: "io_subscribed (client m)" "status_listeners (client m)"
    and ev: "e = SockClose i \<or> e = SockError i"
    and checked: "m1 = manager_check_workspace cfg ext msg (Some client_dir) m"
    and closed: "m2 = manager_io_event hs e m1"
  shows "fst (io_notificationFilter msg (client m)) = [Check_workspace]
     \<and> rejected (client m1)
     \<and> destroyed (sockets (io (client m1)) ! i)
     \<and> client_status (client m2) = ClientStatus.REJECTED
     \<and> socket (io (client m2)) = None
     \<and> \<not> attached i (io (client m2))
     \<and> status m2 = WRONG_WORKSPACE
     \<and> \<not> retry m2
     \<and> retry_callback cfg hs m2 = (m2, None)
     \<and> handlers m2 = handlers m
     \<and> (list_all tick_or_handshake (map snd evs) \<longrightarrow>
          \<not> retry (manager_run cfg ext evs m2)
          \<and> client (manager_run cfg ext evs m2) = client m2)"
proof -
  let ?io1 = "on_sock i resetAndDestroy (io (client m))"
  let ?c1 = "(client m)\<lparr>io := ?io1, rejected := True\<rparr>"
  have i: "i < length (sockets (io (client m)))" "listeners (sockets (io (client m)) ! i)"
    using sock(2) by (auto simp: attached_def)
  have started: "fst (io_notificationFilter msg (client m)) = [Check_workspace]"
    using kind bound by (simp add: io_notificationFilter_def notification_filter_def)
  have m1: "m1 = m\<lparr>client := ?c1\<rparr>"
    using path differs sock(1)
    by (simp add: checked manager_check_workspace_def check_workspace_def)
  have att: "attached i ?io1"
    using i by (simp add: attached_def on_sock_def resetAndDestroy_def destroy_def)
  have sk: "socket ?io1 = Some i" using sock(1) by (simp add: on_sock_def)
  let ?io2 = "(on_sock i (\<lambda>s. destroy (removeAllListeners (s\<lparr>timer := False\<rparr>))) ?io1)\<lparr>socket := None\<rparr>"
  have step: "io_step e ?io1 = (?io2, [Disconnected])"
    using ev att sk by (auto simp: on_close_def on_error_def Let_def on_sock_def)
  have ce: "client_io_event e ?c1
      = (?c1\<lparr>io := ?io2, client_status := ClientStatus.REJECTED\<rparr>, [ClientStatus.REJECTED])"
    using subscribed by (simp add: client_io_event_def step on_disconnected_def set_status_def)
  have m2: "m2 =
      m\<lparr>client := ?c1\<lparr>io := ?io2, client_status := ClientStatus.REJECTED\<rparr>,
        status := WRONG_WORKSPACE, retry := False\<rparr>"
    by (simp add: closed m1 manager_io_event_def ce on_client_status_changed_def)
  have d: "destroyed (sockets (io ?c1) ! i)"
    using i by (simp add: on_sock_def resetAndDestroy_def destroy_def)
  have na: "\<not> attached i ?io2"
    using i by (simp add: attached_def on_sock_def removeAllListeners_def destroy_def)
  have cleared: "\<not> retry m2" by (simp add: m2)
  have later: "list_all tick_or_handshake (map snd evs) \<longrightarrow>
      \<not> retry (manager_run cfg ext evs m2) \<and> client (manager_run cfg ext evs m2) = client m2"
    using retry_stays_cleared[OF cleared, of evs cfg ext] by blast
  have now: "rejected (client m1) \<and> destroyed (sockets (io (client m1)) ! i)
     \<and> client_status (client m2) = ClientStatus.REJECTED \<and> socket (io (client m2)) = None
     \<and> \<not> attached i (io (client m2)) \<and> status m2 = WRONG_WORKSPACE \<and> \<not> retry m2
     \<and> retry_callback cfg hs m2 = (m2, None) \<and> handlers m2 = handlers m"
    unfolding m2 unfolding m1 using d na by (simp add: retry_callback_def)
  from started now later show ?thesis by blast
qed

theorem workspace_mismatch_rejects_witness:
  "status handshaking_manager = INITIALIZING_CLIENT
   \<and> handlers handshaking_manager = [Await_start]
   \<and> client_status (client early_rejected_manager) = ClientStatus.REJECTED
   \<and> socket (io (client early_rejected_manager)) = None
   \<and> status early_rejected_manager = WRONG_WORKSPACE
   \<and> \<not> retry early_rejected_manager
   \<and> retry_callback sample_config sample_handshake early_rejected_manager
       = (early_rejected_manager, None)
   \<and> \<not> retry (manager_run sample_config sample_externals
          (map (Pair sample_handshake)
             [Tick, Start_settled 0 (Some (Error ''Connection is closed.'')), Tick])
          early_rejected_manager)
   \<and> client (manager_run sample_config sample_externals
          (map (Pair sample_handshake)
             [Tick, Start_settled 0 (Some (Error ''Connection is closed.'')), Tick])
          early_rejected_manager)
       = client early_rejected_manager"
proof -
  have kind: "method workspace_notification = Some ''gdscript_client/changeWorkspace''"
    by (simp add: workspace_notification_def)
  have path: "params_path workspace_notification = Some ''/srv/game''"
    by (simp add: workspace_notification_def)
  have differs: "normalize sample_externals ''/srv/game'' \<noteq> normalize sample_externals ''/home/me/game''"
    by (simp add: sample_externals_def)
  have bound: "notificationFilter (io (client handshaking_manager)) = Client_filter"
    by (simp add: handshaking_manager_value)
  have sock: "socket (io (client handshaking_manager)) = Some 0"
    "attached 0 (io (client handshaking_manager))"
    by (simp_all add: handshaking_manager_value attached_def)
  have subscribed: "io_subscribed (client handshaking_manager)"
    "status_listeners (client handshaking_manager)"
    by (simp_all add: handshaking_manager_value)
  have ev: "SockClose 0 = SockClose 0 \<or> SockClose 0 = SockError 0"
    by simp
  have before: "status handshaking_manager = INITIALIZING_CLIENT"
    "handlers handshaking_manager = [Await_start]"
    by (simp_all add: handshaking_manager_value)
  have later: "list_all tick_or_handshake (map snd (map (Pair sample_handshake)
      [Tick, Start_settled 0 (Some (Error ''Connection is closed.'')), Tick]))"
    by simp
  from workspace_mismatch_rejects[OF kind path differs bound sock subscribed ev refl
      early_rejected_manager_def,
      of "map (Pair sample_handshake)
        [Tick, Start_settled 0 (Some (Error ''Connection is closed.'')), Tick]"]
    before later
  show ?thesis by blast
qed

text \<open>The status \<open>WRONG_WORKSPACE\<close> is what the \<open>REJECTED\<close> case leaves. When the
  notification comes during the handshake, the invocation of the \<open>CONNECTED\<close> case is
  still suspended; when the start of the client fails on the destroyed socket (or the timer
  of the wait fires), it goes on and sets the status to \<open>CONNECTED\<close>, with the client
  rejected and the retry flag still cleared.\<close>

lemma suspended_handshake_overwrites_wrong_workspace:
  "status early_rejected_manager = WRONG_WORKSPACE
   \<and> status (manager_step sample_config sample_externals sample_handshake
        (Start_settled 0 (Some (Error ''Connection is closed.''))) early_rejected_manager)
       = ManagerStatus.CONNECTED
   \<and> client_status (client (manager_step sample_config sample_externals sample_handshake
        (Start_settled 0 (Some (Error ''Connection is closed.''))) early_rejected_manager))
       = ClientStatus.REJECTED
   \<and> \<not> retry (manager_step sample_config sample_externals sample_handshake
        (Start_settled 0 (Some (Error ''Connection is closed.''))) early_rejected_manager)"
  by (simp add: early_rejected_manager_value manager_defs)

end
